theory Spec2Isabelle
  imports Complex_Main "HOL-Library.Multiset" "HOL-Library.Log_Nat"
begin

section \<open>The patient record table\<close>

text \<open>
  The dashboard script \<^verbatim>\<open>foranipy3.py\<close> works on one pandas data frame, read from
  \<^verbatim>\<open>heart.csv\<close>. A row is one patient; the script reads the columns below by name,
  all of them integer columns. A data frame is the list of its rows, in file order.
\<close>

record row =
  age :: int
  sex :: int
  cp :: int
  trestbps :: int
  chol :: int
  thalach :: int
  target :: int

type_synonym table = "row list"

text \<open>\<^verbatim>\<open>df['age']\<close>: a column is the series of one field's values, row by row.\<close>

definition column :: "(row \<Rightarrow> int) \<Rightarrow> table \<Rightarrow> int list" where
  "column f df = map f df"

subsection \<open>Series operations used by the script\<close>

text \<open>\<^verbatim>\<open>s.between(lo, hi)\<close>: pandas' default is inclusive on both sides.\<close>

definition between :: "int list \<Rightarrow> int \<Rightarrow> int \<Rightarrow> bool list" where
  "between s lo hi = map (\<lambda>x. lo \<le> x \<and> x \<le> hi) s"

text \<open>\<^verbatim>\<open>s == v\<close>: the elementwise comparison, a boolean series.\<close>

definition series_eq :: "int list \<Rightarrow> int \<Rightarrow> bool list" where
  "series_eq s v = map (\<lambda>x. x = v) s"

text \<open>\<^verbatim>\<open>m1 & m2\<close> on two boolean series of the same frame.\<close>

definition mask_and :: "bool list \<Rightarrow> bool list \<Rightarrow> bool list" where
  "mask_and m1 m2 = map (\<lambda>(a, b). a \<and> b) (zip m1 m2)"

text \<open>\<^verbatim>\<open>df[mask]\<close>: a new frame holding the rows whose mask entry is true, in order.\<close>

definition getitem_mask :: "table \<Rightarrow> bool list \<Rightarrow> table" where
  "getitem_mask df m = map fst (filter snd (zip df m))"

subsection \<open>The interactive filter (lines 112 to 117)\<close>

text \<open>
  \<^verbatim>\<open>
  if gender == "Female":
      filtered_df = df[(df['age'].between(age_range[0], age_range[1])) & (df['sex'] == 0)]
  elif gender == "Male":
      filtered_df = df[(df['age'].between(age_range[0], age_range[1])) & (df['sex'] == 1)]
  else:
      filtered_df = df[df['age'].between(age_range[0], age_range[1])]
  \<close>
\<close>

definition filtered_df :: "table \<Rightarrow> int \<times> int \<Rightarrow> string \<Rightarrow> table" where
  "filtered_df df age_range gender =
     (if gender = ''Female'' then
        getitem_mask df (mask_and (between (column age df) (fst age_range) (snd age_range))
                                  (series_eq (column sex df) 0))
      else if gender = ''Male'' then
        getitem_mask df (mask_and (between (column age df) (fst age_range) (snd age_range))
                                  (series_eq (column sex df) 1))
      else
        getitem_mask df (between (column age df) (fst age_range) (snd age_range)))"

text \<open>
  \<^verbatim>\<open>df['age'].min()\<close> and \<^verbatim>\<open>.max()\<close>: the smallest and largest entry; on an empty series
  pandas answers NaN, which is \<open>None\<close> here.
\<close>

fun series_min :: "int list \<Rightarrow> int option" where
  "series_min [] = None"
| "series_min (x # xs) = Some (fold min xs x)"

fun series_max :: "int list \<Rightarrow> int option" where
  "series_max [] = None"
| "series_max (x # xs) = Some (fold max xs x)"

section \<open>Errors, floats and formatted text\<close>

text \<open>
  The exceptions a run can end with. The script catches none of them: an exception ends
  the run where it is raised.
\<close>

datatype py_error =
    FileNotFoundError
  | PermissionError
  | ParserError
  | EmptyDataError
  | ZeroDivisionError
  | OverflowError
  | ValueError
  | PlotError

subsection \<open>Binary floating point\<close>

text \<open>
  A float64 is NaN, an infinity, or a finite value: an integer of less than 54 bits times
  a power of two between \<open>2 powi - 1074\<close> and \<open>2 powi 971\<close>. A finite value is held as the
  rational number it is. The two zeros are not told apart: nothing the script computes is
  the negative zero.
\<close>

datatype pyfloat = Fin rat | PosInf | NegInf | NaN

text \<open>Rounding to the nearest integer, a tie to the even one.\<close>

definition round_half_even :: "rat \<Rightarrow> int" where
  "round_half_even x =
     (let f = \<lfloor>x\<rfloor>; d = x - of_int f
      in if d < 1 / 2 then f else if 1 / 2 < d then f + 1 else if even f then f else f + 1)"

text \<open>The binade of a non-zero \<open>x\<close>: the \<open>k\<close> with \<open>2 powi k \<le> \<bar>x\<bar> < 2 powi (k + 1)\<close>.\<close>

definition binade :: "rat \<Rightarrow> int" where
  "binade x =
     (let k = bitlen (fst (quotient_of \<bar>x\<bar>)) - bitlen (snd (quotient_of \<bar>x\<bar>))
      in if 2 powi k \<le> \<bar>x\<bar> then k else k - 1)"

text \<open>
  The spacing of the float64 values around \<open>x\<close>: 52 bits below the binade, and never
  finer than the subnormal spacing \<open>2 powi - 1074\<close>.
\<close>

definition ulp :: "rat \<Rightarrow> rat" where
  "ulp x = 2 powi (max (binade x) (- 1022) - 52)"

text \<open>
  The float64 nearest to the number \<open>x\<close>, a tie going to the even significand (the
  rounding of every IEEE 754 operation in its default mode); a result of magnitude
  \<open>2 powi 1024\<close> or more is an infinity.
\<close>

definition round_double :: "rat \<Rightarrow> pyfloat" where
  "round_double x =
     (if x = 0 then Fin 0
      else let r = of_int (round_half_even (x / ulp x)) * ulp x
           in if 2 powi 1024 \<le> \<bar>r\<bar> then (if x < 0 then NegInf else PosInf) else Fin r)"

definition float_sign :: "pyfloat \<Rightarrow> rat" where
  "float_sign x = (case x of Fin a \<Rightarrow> sgn a | PosInf \<Rightarrow> 1 | NegInf \<Rightarrow> - 1 | NaN \<Rightarrow> 0)"

definition inf_of_sign :: "rat \<Rightarrow> pyfloat" where
  "inf_of_sign sg = (if sg < 0 then NegInf else PosInf)"

text \<open>\<^verbatim>\<open>x * y\<close> on float64: the exact product, rounded; zero times an infinity is NaN.\<close>

definition float_mul :: "pyfloat \<Rightarrow> pyfloat \<Rightarrow> pyfloat" where
  "float_mul x y =
     (if x = NaN \<or> y = NaN then NaN
      else case (x, y) of
             (Fin a, Fin b) \<Rightarrow> round_double (a * b)
           | _ \<Rightarrow> (if float_sign x * float_sign y = 0 then NaN
                   else inf_of_sign (float_sign x * float_sign y)))"

text \<open>
  \<^verbatim>\<open>x / y\<close> on numpy's float64: the exact quotient, rounded. A division by zero raises
  nothing there: it gives an infinity, or NaN for zero over zero.
\<close>

definition float_div :: "pyfloat \<Rightarrow> pyfloat \<Rightarrow> pyfloat" where
  "float_div x y =
     (if x = NaN \<or> y = NaN then NaN
      else case (x, y) of
             (Fin a, Fin b) \<Rightarrow>
               (if b = 0 then (if a = 0 then NaN else inf_of_sign (sgn a))
                else round_double (a / b))
           | (Fin a, _) \<Rightarrow> Fin 0
           | (_, Fin b) \<Rightarrow> inf_of_sign (float_sign x * (if b < 0 then - 1 else 1))
           | _ \<Rightarrow> NaN)"

text \<open>
  \<^verbatim>\<open>a / b\<close> on two Python integers: \<^verbatim>\<open>ZeroDivisionError\<close> for a zero divisor, else
  the float nearest to the exact quotient, and \<^verbatim>\<open>OverflowError\<close> when that is no finite
  float.
\<close>

definition py_truediv :: "int \<Rightarrow> int \<Rightarrow> py_error + pyfloat" where
  "py_truediv a b =
     (if b = 0 then Inl ZeroDivisionError
      else case round_double (of_int a / of_int b) of
             Fin r \<Rightarrow> Inr (Fin r)
           | _ \<Rightarrow> Inl OverflowError)"

subsection \<open>Formatted text\<close>

definition digit_char :: "nat \<Rightarrow> char" where
  "digit_char n = char_of (48 + n)"

text \<open>The decimal digits of a natural number, without leading zeros.\<close>

function nat_digits :: "nat \<Rightarrow> string" where
  "nat_digits n = (if n < 10 then [digit_char n] else nat_digits (n div 10) @ [digit_char (n mod 10)])"
  by pat_completeness auto
termination
  by (relation "measure id") auto

declare nat_digits.simps [simp del]

text \<open>The last \<open>d\<close> decimal digits of a natural number, zeros included.\<close>

fun fixed_digits :: "nat \<Rightarrow> nat \<Rightarrow> string" where
  "fixed_digits 0 n = []"
| "fixed_digits (Suc d) n = fixed_digits d (n div 10) @ [digit_char (n mod 10)]"

definition int_digits :: "int \<Rightarrow> string" where
  "int_digits i = (if i < 0 then ''-'' @ nat_digits (nat (- i)) else nat_digits (nat i))"

text \<open>
  \<^verbatim>\<open>format(x, ".df")\<close> for a float \<open>x\<close> and \<open>d\<close> decimals: the exact value of the float,
  rounded to \<open>d\<close> decimals with a tie to the even digit; the sign of a negative value is
  kept when the digits are all zero.
\<close>

definition format_f :: "nat \<Rightarrow> pyfloat \<Rightarrow> string" where
  "format_f d x =
     (case x of
        NaN \<Rightarrow> ''nan''
      | PosInf \<Rightarrow> ''inf''
      | NegInf \<Rightarrow> ''-inf''
      | Fin q \<Rightarrow>
          (let k = nat (round_half_even (\<bar>q\<bar> * 10 ^ d))
           in (if q < 0 then ''-'' else [])
              @ nat_digits (k div 10 ^ d)
              @ (if d = 0 then [] else ''.'' @ fixed_digits d (k mod 10 ^ d))))"

text \<open>
  An f-string is the list of its parts: literal text, an integer printed as it is, and a
  float printed with a fixed number of decimals (\<^verbatim>\<open>{x:.2f}\<close> is \<open>FFloat 2 x\<close>); its text
  is the parts' texts in a row.
\<close>

datatype fpart = Lit string | FInt int | FFloat nat pyfloat

fun part_text :: "fpart \<Rightarrow> string" where
  "part_text (Lit t) = t"
| "part_text (FInt i) = int_digits i"
| "part_text (FFloat d x) = format_f d x"

definition fstring :: "fpart list \<Rightarrow> string" where
  "fstring ps = concat (map part_text ps)"

section \<open>The environment\<close>

text \<open>What opening a file and reading its text gives.\<close>

datatype file_state = Missing | Unreadable py_error | Readable string

text \<open>
  What the script needs from outside itself: the file system, the libraries' numeric
  routines, the plotting library and the user's input.
  \<^item> \<open>files\<close>: the state of the file at each path;
  \<^item> \<open>parse_csv\<close>: pandas' CSV parser on a file's text;
  \<^item> \<open>fsum\<close>: numpy's float64 sum of an integer series, an integer-valued float; the
    order in which it adds is the library's, see \<open>float_sum\<close>;
  \<^item> \<open>std\<close>: the sample standard deviation of a series;
  \<^item> \<open>round2\<close>: rounding a float to 2 decimals;
  \<^item> \<open>chart\<close>: building a chart, by title, from a frame: the error it raises, if any;
  \<^item> \<open>checkbox\<close>, \<open>slider\<close>, \<open>selectbox\<close>: what the widgets return in this run.
\<close>

record env =
  files :: "string \<Rightarrow> file_state"
  parse_csv :: "string \<Rightarrow> py_error + table"
  fsum :: "int list \<Rightarrow> int"
  std :: "int list \<Rightarrow> pyfloat"
  round2 :: "pyfloat \<Rightarrow> pyfloat"
  chart :: "string \<Rightarrow> table \<Rightarrow> py_error option"
  checkbox :: "string \<Rightarrow> bool"
  slider :: "string \<Rightarrow> int \<Rightarrow> int \<Rightarrow> int \<times> int \<Rightarrow> py_error + int \<times> int"
  selectbox :: "string \<Rightarrow> string list \<Rightarrow> nat \<Rightarrow> string"

subsection \<open>The mean of an integer series\<close>

text \<open>
  The float64 sum of an integer series. While the absolute values add up to at most
  \<open>2 ^ 53\<close>, every entry and every partial sum, in whatever order the entries are added,
  is an integer of at most that magnitude, hence a float, and no addition rounds: the
  sum is exact. Beyond that the result depends on the order of the additions, which is
  the library's.
\<close>

definition float_sum :: "env \<Rightarrow> int list \<Rightarrow> int" where
  "float_sum e s = (if sum_list (map abs s) \<le> 2 ^ 53 then sum_list s else fsum e s)"

text \<open>
  \<^verbatim>\<open>s.mean()\<close> on an integer series: NaN when the series is empty, else the float64 sum
  divided by the count, the count as a float64.
\<close>

definition series_mean :: "env \<Rightarrow> int list \<Rightarrow> pyfloat" where
  "series_mean e s =
     (if s = [] then NaN
      else float_div (Fin (of_int (float_sum e s))) (round_double (of_nat (length s))))"

section \<open>The metrics panel (lines 31 to 40)\<close>

text \<open>\<^verbatim>\<open>len(df)\<close>\<close>

definition total_patients :: "table \<Rightarrow> int" where
  "total_patients df = int (length df)"

text \<open>\<^verbatim>\<open>df['target'].mean() * 100\<close>\<close>

definition prevalence :: "env \<Rightarrow> table \<Rightarrow> pyfloat" where
  "prevalence e df = float_mul (series_mean e (column target df)) (Fin 100)"

text \<open>\<^verbatim>\<open>f"{(df['target'].mean() * 100):.2f}%"\<close>\<close>

definition prevalence_text :: "env \<Rightarrow> table \<Rightarrow> fpart list" where
  "prevalence_text e df = [FFloat 2 (prevalence e df), Lit ''%'']"

text \<open>\<^verbatim>\<open>f"{df['age'].mean():.1f} years"\<close>\<close>

definition average_age_text :: "env \<Rightarrow> table \<Rightarrow> fpart list" where
  "average_age_text e df = [FFloat 1 (series_mean e (column age df)), Lit '' years'']"

text \<open>
  \<^verbatim>\<open>gender_ratio = len(df[df['sex'] == 1]) / len(df[df['sex'] == 0])\<close>:
  both operands are Python integers, and \<^verbatim>\<open>/\<close> on integers raises
  \<^verbatim>\<open>ZeroDivisionError\<close> when the divisor is zero.
\<close>

definition gender_ratio :: "table \<Rightarrow> py_error + pyfloat" where
  "gender_ratio df =
     (let males = length (getitem_mask df (series_eq (column sex df) 1));
          females = length (getitem_mask df (series_eq (column sex df) 0))
      in py_truediv (int males) (int females))"

section \<open>The grouped summary (lines 93 to 102)\<close>

text \<open>
  A small data frame of aggregates: column labels, row labels (the index) and one list of
  cells per row. Integer aggregates (min, max of an integer column) stay integers.
\<close>

datatype cell = IntCell int | FloatCell pyfloat

record ('c, 'i) frame =
  fr_columns :: "'c list"
  fr_index :: "'i list"
  fr_data :: "cell list list"

text \<open>
  \<^verbatim>\<open>df.groupby("target")\<close>: one group per distinct value of the column, the keys in
  ascending order, each group holding its rows in frame order.
\<close>

definition groupby_target :: "table \<Rightarrow> (int \<times> table) list" where
  "groupby_target df =
     map (\<lambda>k. (k, filter (\<lambda>r. target r = k) df)) (sort (remdups (column target df)))"

text \<open>
  The dictionary handed to \<^verbatim>\<open>.agg\<close>, in its order:
  \<^verbatim>\<open>{"age": ["mean", "std", "min", "max"], "thalach": ["mean", "std"],
    "chol": ["mean", "std"], "trestbps": ["mean", "std"]}\<close>
\<close>

definition agg_spec :: "(string \<times> (row \<Rightarrow> int) \<times> string list) list" where
  "agg_spec =
     [(''age'', age, [''mean'', ''std'', ''min'', ''max'']),
      (''thalach'', thalach, [''mean'', ''std'']),
      (''chol'', chol, [''mean'', ''std'']),
      (''trestbps'', trestbps, [''mean'', ''std''])]"

text \<open>One aggregate of one series, by the aggregate's name, then \<^verbatim>\<open>.round(2)\<close>.\<close>

definition agg_cell :: "env \<Rightarrow> string \<Rightarrow> int list \<Rightarrow> cell" where
  "agg_cell e fn s =
     (if fn = ''mean'' then FloatCell (round2 e (series_mean e s))
      else if fn = ''std'' then FloatCell (round2 e (std e s))
      else if fn = ''min'' then (case series_min s of None \<Rightarrow> FloatCell NaN | Some m \<Rightarrow> IntCell m)
      else (case series_max s of None \<Rightarrow> FloatCell NaN | Some m \<Rightarrow> IntCell m))"

definition agg_row :: "env \<Rightarrow> table \<Rightarrow> cell list" where
  "agg_row e g = concat (map (\<lambda>(c, f, fns). map (\<lambda>fn. agg_cell e fn (column f g)) fns) agg_spec)"

definition grouped_agg :: "env \<Rightarrow> table \<Rightarrow> (string \<times> string, int) frame" where
  "grouped_agg e df =
     \<lparr> fr_columns = concat (map (\<lambda>(c, f, fns). map (\<lambda>fn. (c, fn)) fns) agg_spec),
       fr_index = map fst (groupby_target df),
       fr_data = map (\<lambda>(k, g). agg_row e g) (groupby_target df) \<rparr>"

text \<open>
  \<^verbatim>\<open>f"{col[0]}_{col[1]}".replace("_", " ").title()\<close> on ASCII text: \<^verbatim>\<open>title\<close> puts a
  letter in upper case when it follows a character that is not a letter, in lower case
  otherwise.
\<close>

definition is_lower :: "char \<Rightarrow> bool" where
  "is_lower c = (97 \<le> (of_char c :: nat) \<and> (of_char c :: nat) \<le> 122)"

definition is_upper :: "char \<Rightarrow> bool" where
  "is_upper c = (65 \<le> (of_char c :: nat) \<and> (of_char c :: nat) \<le> 90)"

definition to_upper :: "char \<Rightarrow> char" where
  "to_upper c = (if is_lower c then char_of ((of_char c :: nat) - 32) else c)"

definition to_lower :: "char \<Rightarrow> char" where
  "to_lower c = (if is_upper c then char_of ((of_char c :: nat) + 32) else c)"

fun title_from :: "bool \<Rightarrow> string \<Rightarrow> string" where
  "title_from after_letter [] = []"
| "title_from after_letter (c # cs) =
     (if is_lower c \<or> is_upper c
      then (if after_letter then to_lower c else to_upper c) # title_from True cs
      else c # title_from False cs)"

definition str_title :: "string \<Rightarrow> string" where
  "str_title s = title_from False s"

definition str_replace_char :: "char \<Rightarrow> char \<Rightarrow> string \<Rightarrow> string" where
  "str_replace_char old new s = map (\<lambda>c. if c = old then new else c) s"

definition rename_column :: "string \<times> string \<Rightarrow> string" where
  "rename_column col = str_title (str_replace_char (CHR ''_'') (CHR '' '') (fst col @ ''_'' @ snd col))"

text \<open>
  Assigning to \<^verbatim>\<open>.columns\<close> or \<^verbatim>\<open>.index\<close>: pandas raises \<^verbatim>\<open>ValueError\<close> (length
  mismatch) unless there are as many new labels as the axis has entries.
\<close>

definition set_columns :: "('c, 'i) frame \<Rightarrow> 'd list \<Rightarrow> py_error + ('d, 'i) frame" where
  "set_columns fr labels =
     (if length labels \<noteq> length (fr_columns fr) then Inl ValueError
      else Inr \<lparr> fr_columns = labels, fr_index = fr_index fr, fr_data = fr_data fr \<rparr>)"

definition set_index :: "('c, 'i) frame \<Rightarrow> 'j list \<Rightarrow> py_error + ('c, 'j) frame" where
  "set_index fr labels =
     (if length labels \<noteq> length (fr_index fr) then Inl ValueError
      else Inr \<lparr> fr_columns = fr_columns fr, fr_index = labels, fr_data = fr_data fr \<rparr>)"

text \<open>
  \<^verbatim>\<open>
  summary = df.groupby("target").agg({...}).round(2)
  summary.columns = [f"{col[0]}_{col[1]}".replace("_", " ").title() for col in summary.columns]
  summary.index = ["No Heart Disease", "Heart Disease"]
  \<close>
\<close>

definition summary :: "env \<Rightarrow> table \<Rightarrow> py_error + (string, string) frame" where
  "summary e df =
     (let s0 = grouped_agg e df in
      case set_columns s0 (map rename_column (fr_columns s0)) of
        Inl err \<Rightarrow> Inl err
      | Inr s1 \<Rightarrow> set_index s1 [''No Heart Disease'', ''Heart Disease''])"

section \<open>The data loader (lines 15 to 20)\<close>

text \<open>
  \<^verbatim>\<open>pd.read_csv(path)\<close>: a missing file raises \<^verbatim>\<open>FileNotFoundError\<close>, a file that
  cannot be read the error of the read; the text of a readable file goes to the parser,
  which answers a frame or raises its own error.
\<close>

definition read_csv :: "env \<Rightarrow> string \<Rightarrow> py_error + table" where
  "read_csv e path =
     (case files e path of
        Missing \<Rightarrow> Inl FileNotFoundError
      | Unreadable err \<Rightarrow> Inl err
      | Readable text \<Rightarrow> parse_csv e text)"

text \<open>
  The body of \<^verbatim>\<open>load_data\<close>:
  \<^verbatim>\<open>
  df = pd.read_csv("heart.csv")
  return df
  \<close>
\<close>

definition load_data_body :: "env \<Rightarrow> py_error + table" where
  "load_data_body e = read_csv e ''heart.csv''"

text \<open>
  \<^verbatim>\<open>@st.cache_data\<close> on a function without arguments: the process keeps at most one
  cached value. A call that finds it returns it and does not run the body; a call that
  finds none runs the body and stores what it returns; an exception stores nothing.
  Frames are values here: the same table means a table of equal content.
\<close>

definition cache_data :: "(env \<Rightarrow> py_error + 'a) \<Rightarrow> 'a option \<Rightarrow> env \<Rightarrow> (py_error + 'a) \<times> 'a option" where
  "cache_data f cache e =
     (case cache of
        Some v \<Rightarrow> (Inr v, cache)
      | None \<Rightarrow> (case f e of Inl err \<Rightarrow> (Inl err, None) | Inr v \<Rightarrow> (Inr v, Some v)))"

definition load_data :: "table option \<Rightarrow> env \<Rightarrow> (py_error + table) \<times> table option" where
  "load_data = cache_data load_data_body"

section \<open>One run of the script\<close>

text \<open>What a run puts on the page, call by call.\<close>

datatype element =
    Set_page_config string string
  | Title string
  | Sidebar_header string
  | Checkbox string
  | Subheader string
  | Dataframe table
  | Summary_dataframe "(string, string) frame"
  | Columns nat
  | Metric string "fpart list"
  | Tabs "string list"
  | Plotly_chart string
  | Slider string int int "int \<times> int"
  | Selectbox string "string list" nat
  | Write "fpart list"
  | Markdown "string list"

text \<open>
  The variables of the script that hold frames, and the page so far. \<open>st_summary\<close> and
  \<open>st_filtered_df\<close> are unbound until their assignment.
\<close>

record app_state =
  st_df :: table
  st_summary :: "(string, string) frame option"
  st_filtered_df :: "table option"
  st_rendered :: "element list"

text \<open>A statement changes the state and may raise; what follows a raise is not run.\<close>

type_synonym step = "app_state \<Rightarrow> app_state \<times> py_error option"

definition render :: "element \<Rightarrow> step" where
  "render el s = (s\<lparr>st_rendered := st_rendered s @ [el]\<rparr>, None)"

definition raise :: "py_error \<Rightarrow> step" where
  "raise err s = (s, Some err)"

definition seq :: "step \<Rightarrow> step \<Rightarrow> step" where
  "seq f g s = (case f s of (s', Some err) \<Rightarrow> (s', Some err) | (s', None) \<Rightarrow> g s')"

fun seqs :: "step list \<Rightarrow> step" where
  "seqs [] s = (s, None)"
| "seqs (f # fs) s = seq f (seqs fs) s"

text \<open>\<^verbatim>\<open>st.plotly_chart(fig)\<close> of a figure built from the frame \<open>d\<close>.\<close>

definition plotly_chart :: "env \<Rightarrow> string \<Rightarrow> (app_state \<Rightarrow> table) \<Rightarrow> step" where
  "plotly_chart e title_text d s =
     (case chart e title_text (d s) of Some err \<Rightarrow> raise err s | None \<Rightarrow> render (Plotly_chart title_text) s)"

text \<open>Lines 23 to 28: the sidebar.\<close>

definition sidebar :: "env \<Rightarrow> step" where
  "sidebar e =
     seqs [render (Sidebar_header ''Explore Data''),
           render (Checkbox ''Show Raw Data''),
           (\<lambda>s. if checkbox e ''Show Raw Data''
                then seqs [render (Subheader ''Raw Data''), render (Dataframe (st_df s))] s
                else (s, None))]"

text \<open>Lines 31 to 40: the four metrics; the ratio is computed before its metric is shown.\<close>

definition metrics :: "env \<Rightarrow> step" where
  "metrics e =
     seqs [render (Columns 4),
           (\<lambda>s. render (Metric ''Total Patients'' [FInt (total_patients (st_df s))]) s),
           (\<lambda>s. render (Metric ''Heart Disease Prevalence'' (prevalence_text e (st_df s))) s),
           (\<lambda>s. render (Metric ''Average Age'' (average_age_text e (st_df s))) s),
           (\<lambda>s. case gender_ratio (st_df s) of
                  Inl err \<Rightarrow> raise err s
                | Inr r \<Rightarrow> render (Metric ''Male to Female Ratio'' [FFloat 2 r]) s)]"

text \<open>Lines 45 to 59: the distribution tab.\<close>

definition tab1 :: "env \<Rightarrow> step" where
  "tab1 e =
     seqs [render (Subheader ''Distribution of Patients''),
           plotly_chart e ''Gender Distribution'' st_df,
           plotly_chart e ''Age Distribution by Disease Status'' st_df,
           plotly_chart e ''Chest Pain Types by Disease Status'' st_df]"

text \<open>Lines 61 to 87: the relationship tab.\<close>

definition tab2 :: "env \<Rightarrow> step" where
  "tab2 e =
     seqs [render (Subheader ''Feature Relationships''),
           plotly_chart e ''Heart Rate vs Age (Cholesterol Size)'' st_df,
           plotly_chart e ''Feature Correlation Matrix'' st_df,
           plotly_chart e ''Feature Distribution by Heart Disease Status'' st_df]"

text \<open>Lines 90 to 103: the summary table. The two label assignments change \<open>summary\<close>.\<close>

definition tab3_summary :: "env \<Rightarrow> step" where
  "tab3_summary e =
     seqs [render (Subheader ''Statistical Insights''),
           (\<lambda>s. case summary e (st_df s) of
                  Inl err \<Rightarrow> raise err s
                | Inr fr \<Rightarrow> (s\<lparr>st_summary := Some fr\<rparr>, None)),
           (\<lambda>s. case st_summary s of
                  None \<Rightarrow> (s, None)
                | Some fr \<Rightarrow> render (Summary_dataframe fr) s)]"

text \<open>
  \<^verbatim>\<open>int(df['age'].min())\<close>: \<^verbatim>\<open>int\<close> of NaN raises \<^verbatim>\<open>ValueError\<close>.
\<close>

definition py_int :: "int option \<Rightarrow> py_error + int" where
  "py_int x = (case x of None \<Rightarrow> Inl ValueError | Some n \<Rightarrow> Inr n)"

text \<open>Lines 106 to 120: the sliders, the filter and its output.\<close>

definition tab3_filter :: "env \<Rightarrow> step" where
  "tab3_filter e =
     seqs [render (Subheader ''Filter Data for Custom Analysis''),
           (\<lambda>s. case py_int (series_min (column age (st_df s))) of
                  Inl err \<Rightarrow> raise err s
                | Inr lo \<Rightarrow>
                   (case py_int (series_max (column age (st_df s))) of
                      Inl err \<Rightarrow> raise err s
                    | Inr hi \<Rightarrow>
                       (case slider e ''Select Age Range'' lo hi (30, 70) of
                          Inl err \<Rightarrow> raise err s
                        | Inr age_range \<Rightarrow>
                           seqs [render (Slider ''Select Age Range'' lo hi (30, 70)),
                                 render (Selectbox ''Select Gender'' [''Both'', ''Female'', ''Male''] 0),
                                 (\<lambda>s. (s\<lparr>st_filtered_df :=
                                          Some (filtered_df (st_df s) age_range
                                                  (selectbox e ''Select Gender'' [''Both'', ''Female'', ''Male''] 0))\<rparr>,
                                        None)),
                                 (\<lambda>s. case st_filtered_df s of
                                        None \<Rightarrow> (s, None)
                                      | Some fd \<Rightarrow>
                                         seqs [render (Write [Lit ''Filtered Data: '', FInt (int (length fd)),
                                                              Lit '' patients'']),
                                               render (Dataframe fd)] s)] s)))]"

text \<open>Lines 123 to 133: the footer.\<close>

definition footer :: step where
  "footer =
     seqs [render (Markdown [''---'']),
           render (Markdown
             [''**Data Dictionary:**'',
              ''- target: Heart disease presence (1: Yes, 0: No)'',
              ''- sex: Gender (1: Male, 0: Female)'',
              ''- cp: Chest pain type'',
              ''- thalach: Maximum heart rate achieved'',
              ''- chol: Cholesterol level''])]"

text \<open>Everything after the load, lines 23 to 133, on the state that holds the frame.\<close>

definition body :: "env \<Rightarrow> step" where
  "body e =
     seqs [sidebar e,
           metrics e,
           render (Tabs [''Patient Distribution'', ''Feature Relationships'', ''Advanced Insights'']),
           tab1 e,
           tab2 e,
           tab3_summary e,
           tab3_filter e,
           footer]"

text \<open>Lines 9 and 12 run before the load.\<close>

definition page_head :: "element list" where
  "page_head =
     [Set_page_config ''Heart Disease Analysis'' ''wide'',
      Title ''Heart Disease Analysis - A New Perspective'']"

text \<open>
  A whole run, from the process's cache: what was rendered, the exception that ended the
  run if one did, the frame bound to \<open>df\<close> at the end (if the load bound one), and the
  cache after the run.
\<close>

record run_result =
  rendered :: "element list"
  raised :: "py_error option"
  final_df :: "table option"
  cache_after :: "table option"

definition run_script :: "env \<Rightarrow> table option \<Rightarrow> run_result" where
  "run_script e cache =
     (case load_data cache e of
        (Inl err, cache') \<Rightarrow>
          \<lparr> rendered = page_head, raised = Some err, final_df = None, cache_after = cache' \<rparr>
      | (Inr t, cache') \<Rightarrow>
          (case body e \<lparr> st_df = t, st_summary = None, st_filtered_df = None, st_rendered = page_head \<rparr> of
             (s, err) \<Rightarrow>
               \<lparr> rendered = st_rendered s, raised = err, final_df = Some (st_df s), cache_after = cache' \<rparr>))"

section \<open>Example tables\<close>

definition patient :: "int \<Rightarrow> int \<Rightarrow> int \<Rightarrow> row" where
  "patient a sx t = \<lparr> age = a, sex = sx, cp = 0, trestbps = 120, chol = 200, thalach = 150, target = t \<rparr>"

definition three_patients :: table where
  "three_patients = [patient 29 1 0, patient 45 0 1, patient 71 1 1]"

definition example_env :: env where
  "example_env =
     \<lparr> files = (\<lambda>p. Missing),
       parse_csv = (\<lambda>text. Inl EmptyDataError),
       fsum = sum_list,
       std = (\<lambda>s. NaN),
       round2 = (\<lambda>x. x),
       chart = (\<lambda>t d. None),
       checkbox = (\<lambda>l. False),
       slider = (\<lambda>l lo hi v. Inr v),
       selectbox = (\<lambda>l opts i. opts ! i) \<rparr>"

text \<open>An environment in which \<^verbatim>\<open>heart.csv\<close> exists and parses to the table \<open>t\<close>.\<close>

definition loaded_env :: "table \<Rightarrow> env" where
  "loaded_env t =
     example_env\<lparr> files := (\<lambda>p. if p = ''heart.csv''
                                then Readable ''age,sex,cp,trestbps,chol,thalach,target'' else Missing),
                  parse_csv := (\<lambda>text. Inr t) \<rparr>"

text \<open>An environment in which \<^verbatim>\<open>heart.csv\<close> exists and is empty: the parser rejects it.\<close>

definition empty_file_env :: env where
  "empty_file_env = example_env\<lparr> files := (\<lambda>p. if p = ''heart.csv'' then Readable [] else Missing) \<rparr>"

definition men_only :: table where
  "men_only = [patient 52 1 0, patient 63 1 1]"

definition codes_one_two :: table where
  "codes_one_two = [patient 40 1 1, patient 50 0 2, patient 60 1 2]"

text \<open>The state right after the load has bound \<open>df\<close> to \<open>t\<close>.\<close>

definition initial_state :: "table \<Rightarrow> app_state" where
  "initial_state t = \<lparr> st_df = t, st_summary = None, st_filtered_df = None, st_rendered = page_head \<rparr>"

text \<open>A table with one disease status only, and both sexes.\<close>

definition one_group :: table where
  "one_group = [patient 50 0 1, patient 60 1 1]"

text \<open>An environment in which \<^verbatim>\<open>heart.csv\<close> exists and may not be read.\<close>

definition locked_file_env :: env where
  "locked_file_env =
     example_env\<lparr> files := (\<lambda>p. if p = ''heart.csv'' then Unreadable PermissionError else Missing) \<rparr>"

section \<open>Properties of the filter\<close>

lemma getitem_mask_map: "getitem_mask df (map P df) = filter P df"
  unfolding getitem_mask_def by (induction df) auto

lemma mask_and_map: "mask_and (map P df) (map Q df) = map (\<lambda>r. P r \<and> Q r) df"
  unfolding mask_and_def by (induction df) auto

lemma between_column: "between (column f df) lo hi = map (\<lambda>r. lo \<le> f r \<and> f r \<le> hi) df"
  unfolding between_def column_def by simp

lemma series_eq_column: "series_eq (column f df) v = map (\<lambda>r. f r = v) df"
  unfolding series_eq_def column_def by simp

lemma filtered_df_Female:
  "filtered_df df (lo, hi) ''Female'' = filter (\<lambda>r. (lo \<le> age r \<and> age r \<le> hi) \<and> sex r = 0) df"
  unfolding filtered_df_def
  by (simp add: between_column series_eq_column mask_and_map getitem_mask_map)

lemma filtered_df_Male:
  "filtered_df df (lo, hi) ''Male'' = filter (\<lambda>r. (lo \<le> age r \<and> age r \<le> hi) \<and> sex r = 1) df"
  unfolding filtered_df_def
  by (simp add: between_column series_eq_column mask_and_map getitem_mask_map)

lemma filtered_df_other:
  "gender \<noteq> ''Female'' \<Longrightarrow> gender \<noteq> ''Male'' \<Longrightarrow>
   filtered_df df (lo, hi) gender = filter (\<lambda>r. lo \<le> age r \<and> age r \<le> hi) df"
  unfolding filtered_df_def
  by (simp add: between_column getitem_mask_map)

lemma fold_min_le: "fold min xs (a::int) \<le> a"
proof (induction xs arbitrary: a)
  case Nil
  then show ?case by simp
next
  case (Cons y ys)
  have "fold min ys (min y a) \<le> min y a" by (rule Cons.IH)
  then show ?case by simp
qed

lemma fold_min_le_mem: "x \<in> set xs \<Longrightarrow> fold min xs (a::int) \<le> x"
proof (induction xs arbitrary: a)
  case Nil
  then show ?case by simp
next
  case (Cons y ys)
  show ?case
  proof (cases "x = y")
    case True
    have "fold min ys (min y a) \<le> min y a" by (rule fold_min_le)
    with True show ?thesis by simp
  next
    case False
    with Cons show ?thesis by simp
  qed
qed

lemma fold_max_ge: "(a::int) \<le> fold max xs a"
proof (induction xs arbitrary: a)
  case Nil
  then show ?case by simp
next
  case (Cons y ys)
  have "max y a \<le> fold max ys (max y a)" by (rule Cons.IH)
  then show ?case by simp
qed

lemma fold_max_ge_mem: "x \<in> set xs \<Longrightarrow> x \<le> fold max xs (a::int)"
proof (induction xs arbitrary: a)
  case Nil
  then show ?case by simp
next
  case (Cons y ys)
  show ?case
  proof (cases "x = y")
    case True
    have "max y a \<le> fold max ys (max y a)" by (rule fold_max_ge)
    with True show ?thesis by simp
  next
    case False
    with Cons show ?thesis by simp
  qed
qed

lemma series_min_lower: "series_min s = Some lo \<Longrightarrow> x \<in> set s \<Longrightarrow> lo \<le> x"
  by (cases s) (auto simp: fold_min_le fold_min_le_mem)

lemma series_max_upper: "series_max s = Some hi \<Longrightarrow> x \<in> set s \<Longrightarrow> x \<le> hi"
  by (cases s) (auto simp: fold_max_ge fold_max_ge_mem)

lemma mset_filter_split:
  "(\<And>x. x \<in> set xs \<Longrightarrow> (R x \<longleftrightarrow> P x \<or> Q x) \<and> \<not> (P x \<and> Q x)) \<Longrightarrow>
   mset (filter P xs) + mset (filter Q xs) = mset (filter R xs)"
  by (induction xs) auto

lemma column_three:
  "column f df = [a, b, c] \<Longrightarrow> \<exists>r1 r2 r3. df = [r1, r2, r3] \<and> f r1 = a \<and> f r2 = b \<and> f r3 = c"
  unfolding column_def by (auto simp: map_eq_Cons_conv)

text \<open>
  Claim C1. For every table, every age range and every gender the select box offers
  (Both, Female, Male), the filter returns exactly the rows, in table order, whose age
  lies in the inclusive range and whose sex is 0 when the gender is Female, 1 when it is
  Male. In particular a table whose ages are 29, 45 and 71, filtered with Both and the
  range (30, 70), yields exactly one row, the one aged 45.
\<close>

theorem filtered_df_exact:
  assumes "gender \<in> set [''Both'', ''Female'', ''Male'']"
  shows "filtered_df df (lo, hi) gender =
           filter (\<lambda>r. lo \<le> age r \<and> age r \<le> hi \<and>
                        (gender = ''Female'' \<longrightarrow> sex r = 0) \<and>
                        (gender = ''Male'' \<longrightarrow> sex r = 1)) df
         \<and> (column age df = [29, 45, 71] \<longrightarrow>
              column age (filtered_df df (30, 70) ''Both'') = [45] \<and>
              length (filtered_df df (30, 70) ''Both'') = 1)"
proof
  from assms consider "gender = ''Both''" | "gender = ''Female''" | "gender = ''Male''"
    by auto
  then show "filtered_df df (lo, hi) gender =
           filter (\<lambda>r. lo \<le> age r \<and> age r \<le> hi \<and>
                        (gender = ''Female'' \<longrightarrow> sex r = 0) \<and>
                        (gender = ''Male'' \<longrightarrow> sex r = 1)) df"
  proof cases
    case 1
    then show ?thesis by (simp add: filtered_df_other)
  next
    case 2
    then show ?thesis by (simp add: filtered_df_Female conj_assoc)
  next
    case 3
    then show ?thesis by (simp add: filtered_df_Male conj_assoc)
  qed
next
  show "column age df = [29, 45, 71] \<longrightarrow>
              column age (filtered_df df (30, 70) ''Both'') = [45] \<and>
              length (filtered_df df (30, 70) ''Both'') = 1"
  proof
    assume "column age df = [29, 45, 71]"
    then obtain r1 r2 r3 where "df = [r1, r2, r3]" "age r1 = 29" "age r2 = 45" "age r3 = 71"
      using column_three by blast
    then show "column age (filtered_df df (30, 70) ''Both'') = [45] \<and>
              length (filtered_df df (30, 70) ''Both'') = 1"
      by (simp add: filtered_df_other column_def)
  qed
qed

theorem filtered_df_exact_witness:
  "''Female'' \<in> set [''Both'', ''Female'', ''Male''] \<and>
   filtered_df three_patients (30, 70) ''Female'' = [patient 45 0 1] \<and>
   column age three_patients = [29, 45, 71] \<and>
   length (filtered_df three_patients (30, 70) ''Both'') = 1"
  using filtered_df_exact [of "''Female''" three_patients 30 70]
  by (simp add: three_patients_def patient_def column_def)

text \<open>
  Claim C5. For every non-empty table the slider's bounds, the smallest and the largest
  age of the table, are defined, and filtering with that range and gender Both returns
  the entire table.
\<close>

theorem filter_full_range_identity:
  assumes "df \<noteq> []"
  shows "\<exists>lo hi. py_int (series_min (column age df)) = Inr lo \<and>
                 py_int (series_max (column age df)) = Inr hi \<and>
                 filtered_df df (lo, hi) ''Both'' = df"
proof -
  from assms obtain lo where lo: "series_min (column age df) = Some lo"
    by (cases df) (auto simp: column_def)
  from assms obtain hi where hi: "series_max (column age df) = Some hi"
    by (cases df) (auto simp: column_def)
  have "\<forall>r \<in> set df. lo \<le> age r \<and> age r \<le> hi"
    using series_min_lower [OF lo] series_max_upper [OF hi] by (simp add: column_def)
  then have "filter (\<lambda>r. lo \<le> age r \<and> age r \<le> hi) df = df"
    by (simp add: filter_id_conv)
  then have "filtered_df df (lo, hi) ''Both'' = df"
    by (simp add: filtered_df_other)
  with lo hi show ?thesis by (simp add: py_int_def)
qed

theorem filter_full_range_identity_witness:
  "three_patients \<noteq> [] \<and>
   py_int (series_min (column age three_patients)) = Inr 29 \<and>
   py_int (series_max (column age three_patients)) = Inr 71 \<and>
   filtered_df three_patients (29, 71) ''Both'' = three_patients"
  using filter_full_range_identity [of three_patients]
  by (auto simp: three_patients_def patient_def column_def py_int_def)

text \<open>
  Claim C10. For every table whose sex column holds only 0 and 1, and every age range,
  the Female result and the Male result partition the Both result: together they hold
  the rows of the Both result, each as often as it occurs there, they share no row, each
  is the Both result restricted to its sex, and their row counts add up to the Both row
  count.
\<close>

theorem female_male_partition_both:
  assumes "set (column sex df) \<subseteq> {0, 1}"
  shows "mset (filtered_df df (lo, hi) ''Female'') + mset (filtered_df df (lo, hi) ''Male'')
           = mset (filtered_df df (lo, hi) ''Both'')
         \<and> set (filtered_df df (lo, hi) ''Female'') \<inter> set (filtered_df df (lo, hi) ''Male'') = {}
         \<and> filtered_df df (lo, hi) ''Female'' = filter (\<lambda>r. sex r = 0) (filtered_df df (lo, hi) ''Both'')
         \<and> filtered_df df (lo, hi) ''Male'' = filter (\<lambda>r. sex r = 1) (filtered_df df (lo, hi) ''Both'')
         \<and> length (filtered_df df (lo, hi) ''Female'') + length (filtered_df df (lo, hi) ''Male'')
           = length (filtered_df df (lo, hi) ''Both'')"
proof -
  let ?F = "filtered_df df (lo, hi) ''Female''"
  let ?M = "filtered_df df (lo, hi) ''Male''"
  let ?B = "filtered_df df (lo, hi) ''Both''"
  from assms have binary: "\<And>r. r \<in> set df \<Longrightarrow> sex r = 0 \<or> sex r = 1"
    unfolding column_def by auto
  have B: "?B = filter (\<lambda>r. lo \<le> age r \<and> age r \<le> hi) df"
    by (simp add: filtered_df_other)
  have part: "mset ?F + mset ?M = mset ?B"
    unfolding B filtered_df_Female filtered_df_Male
    by (rule mset_filter_split) (use binary in auto)
  have disj: "set ?F \<inter> set ?M = {}"
    unfolding filtered_df_Female filtered_df_Male by auto
  have F: "?F = filter (\<lambda>r. sex r = 0) ?B"
    unfolding B filtered_df_Female by (simp add: conj_commute)
  have M: "?M = filter (\<lambda>r. sex r = 1) ?B"
    unfolding B filtered_df_Male by (simp add: conj_commute)
  have "size (mset ?F + mset ?M) = size (mset ?B)"
    using part by simp
  then have len: "length ?F + length ?M = length ?B"
    by simp
  from part disj F M len show ?thesis by blast
qed

theorem female_male_partition_both_witness:
  "set (column sex three_patients) \<subseteq> {0, 1} \<and>
   length (filtered_df three_patients (20, 80) ''Female'') = 1 \<and>
   length (filtered_df three_patients (20, 80) ''Male'') = 2 \<and>
   length (filtered_df three_patients (20, 80) ''Both'') = 3"
  using female_male_partition_both [of three_patients 20 80]
  by (simp add: three_patients_def patient_def column_def filtered_df_Female filtered_df_Male
        filtered_df_other)

section \<open>Properties of the float64 rounding\<close>

lemma round_half_even_error: "\<bar>of_int (round_half_even y) - y\<bar> \<le> 1 / 2"
proof -
  have "of_int \<lfloor>y\<rfloor> \<le> y" "y < of_int \<lfloor>y\<rfloor> + 1" by linarith+
  then show ?thesis
    unfolding round_half_even_def Let_def by (auto simp: abs_le_iff)
qed

lemma round_half_even_le: "y \<le> of_int j \<Longrightarrow> round_half_even y \<le> j"
proof -
  assume a: "y \<le> of_int j"
  then have f: "\<lfloor>y\<rfloor> \<le> j" by (simp add: floor_le_iff)
  show ?thesis
  proof (cases "\<lfloor>y\<rfloor> = j")
    case True
    have "of_int \<lfloor>y\<rfloor> \<le> y" by linarith
    with True a have "y = of_int j" by simp
    then show ?thesis by (simp add: round_half_even_def)
  next
    case False
    with f have "\<lfloor>y\<rfloor> + 1 \<le> j" by simp
    then show ?thesis unfolding round_half_even_def Let_def using f by auto
  qed
qed

lemma round_half_even_ge: "of_int j \<le> y \<Longrightarrow> j \<le> round_half_even y"
proof -
  assume "of_int j \<le> y"
  then have "j \<le> \<lfloor>y\<rfloor>" by (simp add: le_floor_iff)
  then show ?thesis unfolding round_half_even_def Let_def by auto
qed

lemma round_half_even_of_int: "round_half_even (of_int j) = j"
  by (simp add: round_half_even_def)

lemma two_powi_pos: "0 < (2::rat) powi k"
  by (simp add: power_int_def)

lemma binade_bounds:
  assumes "x \<noteq> 0"
  shows "2 powi (binade x) \<le> \<bar>x\<bar>" and "\<bar>x\<bar> < 2 powi (binade x + 1)"
proof -
  obtain a b where q: "quotient_of \<bar>x\<bar> = (a, b)" by (cases "quotient_of \<bar>x\<bar>")
  then have b: "0 < b" by (rule quotient_of_denom_pos)
  from q have x: "\<bar>x\<bar> = of_int a / of_int b" by (rule quotient_of_div)
  have bpos: "(0::rat) < of_int b" using b by simp
  from assms have "0 < \<bar>x\<bar>" by simp
  with x have "(0::rat) < of_int a / of_int b" by simp
  with bpos have "(0::rat) < of_int a" by (simp add: zero_less_divide_iff)
  then have a: "0 < a" by simp
  let ?k = "bitlen a - bitlen b"
  from bitlen_bounds [OF a] have a1: "2 ^ nat (bitlen a - 1) \<le> a" and a2: "a < 2 ^ nat (bitlen a)" by auto
  from bitlen_bounds [OF b] have b1: "2 ^ nat (bitlen b - 1) \<le> b" and b2: "b < 2 ^ nat (bitlen b)" by auto
  have la: "1 \<le> bitlen a" using a by (simp add: bitlen_alt_def)
  have lb: "1 \<le> bitlen b" using b by (simp add: bitlen_alt_def)
  have ra1: "(2::rat) powi (bitlen a - 1) \<le> of_int a"
  proof -
    have "(of_int (2 ^ nat (bitlen a - 1)) :: rat) \<le> of_int a" using a1 by (simp only: of_int_le_iff)
    then show ?thesis using la by (simp add: power_int_def)
  qed
  have ra2: "of_int a < (2::rat) powi (bitlen a)"
  proof -
    have "(of_int a :: rat) < of_int (2 ^ nat (bitlen a))" using a2 by (simp only: of_int_less_iff)
    then show ?thesis using la by (simp add: power_int_def)
  qed
  have rb1: "(2::rat) powi (bitlen b - 1) \<le> of_int b"
  proof -
    have "(of_int (2 ^ nat (bitlen b - 1)) :: rat) \<le> of_int b" using b1 by (simp only: of_int_le_iff)
    then show ?thesis using lb by (simp add: power_int_def)
  qed
  have rb2: "of_int b < (2::rat) powi (bitlen b)"
  proof -
    have "(of_int b :: rat) < of_int (2 ^ nat (bitlen b))" using b2 by (simp only: of_int_less_iff)
    then show ?thesis using lb by (simp add: power_int_def)
  qed
  have lower: "(2::rat) powi (?k - 1) \<le> \<bar>x\<bar>"
  proof -
    have "(2::rat) powi (?k - 1) * of_int b \<le> 2 powi (?k - 1) * 2 powi (bitlen b)"
      using rb2 by (intro mult_left_mono) (simp_all add: less_imp_le)
    also have "\<dots> = 2 powi (bitlen a - 1)"
      by (simp add: power_int_add [symmetric])
    also have "\<dots> \<le> of_int a" by (rule ra1)
    finally show ?thesis unfolding x using bpos by (simp add: le_divide_eq)
  qed
  have upper: "\<bar>x\<bar> < (2::rat) powi (?k + 1)"
  proof -
    have "of_int a < (2::rat) powi (bitlen a)" by (rule ra2)
    also have "\<dots> = 2 powi (?k + 1) * 2 powi (bitlen b - 1)"
      by (simp add: power_int_add [symmetric])
    also have "\<dots> \<le> 2 powi (?k + 1) * of_int b"
      using rb1 by (intro mult_left_mono) simp_all
    finally show ?thesis unfolding x using bpos by (simp add: divide_less_eq)
  qed
  have bin: "binade x = (if 2 powi ?k \<le> \<bar>x\<bar> then ?k else ?k - 1)"
    by (simp add: binade_def q Let_def)
  show "2 powi (binade x) \<le> \<bar>x\<bar>"
    using lower by (simp add: bin)
  show "\<bar>x\<bar> < 2 powi (binade x + 1)"
    using upper by (auto simp: bin not_le)
qed

lemma binade_less:
  assumes "x \<noteq> 0" and "\<bar>x\<bar> < 2 powi k"
  shows "binade x < k"
proof (rule ccontr)
  assume "\<not> binade x < k"
  then have "k \<le> binade x" by simp
  then have "(2::rat) powi k \<le> 2 powi (binade x)"
    by (intro power_int_increasing) simp_all
  also have "\<dots> \<le> \<bar>x\<bar>" by (rule binade_bounds(1) [OF assms(1)])
  finally show False using assms(2) by simp
qed

lemma ulp_pos: "0 < ulp x"
  by (simp add: ulp_def two_powi_pos)

text \<open>Below \<open>2 powi k\<close>, with \<open>k \<le> 53\<close>, the spacing is one over a power of two.\<close>

lemma ulp_below:
  assumes "x \<noteq> 0" and "\<bar>x\<bar> < 2 powi k" and "- 1021 \<le> k"
  shows "ulp x \<le> 2 powi (k - 53)"
proof -
  have "binade x < k" using assms(1,2) by (rule binade_less)
  with assms(3) have "max (binade x) (- 1022) - 52 \<le> k - 53" by simp
  then show ?thesis unfolding ulp_def by (intro power_int_increasing) simp_all
qed

lemma ulp_divides_int:
  assumes "x \<noteq> 0" and "\<bar>x\<bar> < 2 powi 53"
  shows "\<exists>j::nat. ulp x * 2 ^ j = 1"
proof -
  have "binade x < 53" using assms by (rule binade_less)
  then have le: "max (binade x) (- 1022) - 52 \<le> 0" by simp
  define j where "j = nat (- (max (binade x) (- 1022) - 52))"
  have "ulp x = 2 powi (- int j)" using le by (simp add: ulp_def j_def)
  then have "ulp x * 2 ^ j = 2 powi (- int j) * 2 powi (int j)" by (simp only: power_int_of_nat)
  also have "\<dots> = 2 powi (- int j + int j)" by (rule power_int_add [symmetric]) simp
  also have "\<dots> = 1" by simp
  finally show ?thesis by blast
qed

lemma round_double_bounds:
  assumes "0 < x" and "x \<le> of_int c" and "c < 2 ^ 53"
  shows "\<exists>r. round_double x = Fin r \<and> 0 \<le> r \<and> r \<le> of_int c \<and> \<bar>r - x\<bar> \<le> ulp x / 2"
proof -
  let ?u = "ulp x"
  let ?r = "of_int (round_half_even (x / ?u)) * ?u"
  have u: "0 < ?u" by (rule ulp_pos)
  have x0: "x \<noteq> 0" using assms(1) by simp
  have "(of_int c :: rat) < of_int (2 ^ 53)" using assms(3) by (simp only: of_int_less_iff)
  then have c53: "(of_int c :: rat) < 2 powi 53" by simp
  have "\<bar>x\<bar> < 2 powi 53" using assms(1,2) c53 by simp
  with x0 obtain j :: nat where j: "?u * 2 ^ j = 1" using ulp_divides_int by blast
  then have inv: "1 / ?u = 2 ^ j" using u by (simp add: field_simps)
  have "x / ?u \<le> of_int c / ?u" using assms(2) u by (simp add: divide_right_mono)
  also have "of_int c / ?u = of_int (c * 2 ^ j)"
  proof -
    have "of_int c / ?u = of_int c * (1 / ?u)" by simp
    also have "\<dots> = of_int c * 2 ^ j" by (simp only: inv)
    finally show ?thesis by simp
  qed
  finally have "round_half_even (x / ?u) \<le> c * 2 ^ j" by (rule round_half_even_le)
  then have "(of_int (round_half_even (x / ?u)) :: rat) \<le> of_int (c * 2 ^ j)" by (simp only: of_int_le_iff)
  then have "?r \<le> of_int (c * 2 ^ j) * ?u" using u by (simp add: mult_right_mono)
  also have "\<dots> = of_int c" using j by (simp add: mult.assoc mult.commute)
  finally have hi: "?r \<le> of_int c" .
  have "(of_int 0 :: rat) \<le> x / ?u" using assms(1) u by simp
  then have "0 \<le> round_half_even (x / ?u)" by (rule round_half_even_ge)
  then have lo: "0 \<le> ?r" using u by simp
  have "\<bar>of_int (round_half_even (x / ?u)) - x / ?u\<bar> \<le> 1 / 2" by (rule round_half_even_error)
  then have "\<bar>of_int (round_half_even (x / ?u)) - x / ?u\<bar> * ?u \<le> 1 / 2 * ?u"
    using u by (simp add: mult_right_mono)
  moreover have "\<bar>of_int (round_half_even (x / ?u)) - x / ?u\<bar> * ?u = \<bar>?r - x\<bar>"
  proof -
    have "\<bar>of_int (round_half_even (x / ?u)) - x / ?u\<bar> * ?u = \<bar>(of_int (round_half_even (x / ?u)) - x / ?u) * ?u\<bar>"
      using u by (simp add: abs_mult)
    also have "(of_int (round_half_even (x / ?u)) - x / ?u) * ?u = ?r - x"
      using u by (simp add: left_diff_distrib)
    finally show ?thesis .
  qed
  ultimately have err: "\<bar>?r - x\<bar> \<le> ?u / 2" by simp
  have "\<bar>?r\<bar> < 2 powi 1024"
  proof -
    have "\<bar>?r\<bar> = ?r" using lo by simp
    also have "\<dots> < 2 powi 53" using hi c53 by simp
    also have "\<dots> \<le> 2 powi 1024" by (intro power_int_increasing) simp_all
    finally show ?thesis .
  qed
  then have "\<not> 2 powi 1024 \<le> \<bar>?r\<bar>" by (simp only: not_le)
  then have "round_double x = Fin ?r"
    unfolding round_double_def Let_def using x0 by (simp only: if_False)
  with lo hi err show ?thesis by blast
qed

lemma round_double_two_53: "round_double 9007199254740992 = Fin 9007199254740992"
  by code_simp

lemma round_double_of_nat:
  assumes "n \<le> 2 ^ 53"
  shows "round_double (of_nat n) = Fin (of_nat n)"
proof (cases "n = 0")
  case True
  then show ?thesis by (simp add: round_double_def)
next
  case False
  show ?thesis
  proof (cases "n = 2 ^ 53")
    case True
    then show ?thesis using round_double_two_53 by simp
  next
    case False
    with assms have lt: "n < 2 ^ 53" by simp
    let ?x = "of_nat n :: rat"
    let ?u = "ulp ?x"
    have x0: "?x \<noteq> 0" using \<open>n \<noteq> 0\<close> by simp
    have "?x < of_nat (2 ^ 53)" using lt by (simp only: of_nat_less_iff)
    then have x53: "\<bar>?x\<bar> < 2 powi 53" by simp
    with x0 obtain j :: nat where j: "?u * 2 ^ j = 1" using ulp_divides_int by blast
    have u: "0 < ?u" by (rule ulp_pos)
    from j have inv: "1 / ?u = 2 ^ j" using u by (simp add: field_simps)
    have "?x / ?u = ?x * (1 / ?u)" by simp
    also have "\<dots> = ?x * 2 ^ j" by (simp only: inv)
    also have "\<dots> = of_int (int n * 2 ^ j)" by simp
    finally have "round_half_even (?x / ?u) = int n * 2 ^ j"
      by (simp only: round_half_even_of_int)
    then have "of_int (round_half_even (?x / ?u)) * ?u = ?x * (2 ^ j * ?u)" by simp
    also have "\<dots> = ?x" using j by (simp add: mult.commute)
    finally have r: "of_int (round_half_even (?x / ?u)) * ?u = ?x" .
    have "\<bar>?x\<bar> < 2 powi 1024"
    proof -
      note x53
      also have "(2::rat) powi 53 \<le> 2 powi 1024" by (intro power_int_increasing) simp_all
      finally show ?thesis .
    qed
    then have "\<not> 2 powi 1024 \<le> \<bar>of_int (round_half_even (?x / ?u)) * ?u\<bar>"
      by (simp only: r not_le)
    then have "round_double ?x = Fin (of_int (round_half_even (?x / ?u)) * ?u)"
      unfolding round_double_def Let_def using x0 by (simp only: if_False)
    then show ?thesis by (simp only: r)
  qed
qed

text \<open>Rounding a value between 0 and an integer bound below \<open>2 ^ 53\<close>.\<close>

lemma round_double_range:
  assumes "0 \<le> x" and "x \<le> of_int c" and "c < 2 ^ 53" and "x < 2 powi k" and "- 1021 \<le> k"
  shows "\<exists>r. round_double x = Fin r \<and> 0 \<le> r \<and> r \<le> of_int c \<and> \<bar>r - x\<bar> \<le> 2 powi (k - 54)"
proof (cases "x = 0")
  case True
  have "(0::rat) \<le> 2 powi (k - 54)" using two_powi_pos [of "k - 54"] by simp
  with True assms(2) show ?thesis by (simp add: round_double_def)
next
  case False
  with assms(1) have pos: "0 < x" by simp
  from round_double_bounds [OF pos assms(2,3)] obtain r where
    r: "round_double x = Fin r" "0 \<le> r" "r \<le> of_int c" "\<bar>r - x\<bar> \<le> ulp x / 2" by blast
  have "ulp x \<le> 2 powi (k - 53)"
    using False assms(1,4,5) by (intro ulp_below) simp_all
  then have "ulp x / 2 \<le> 2 powi (k - 53) / 2" by simp
  also have "2 powi (k - 53) / 2 = (2::rat) powi (k - 54)"
  proof -
    have "(2::rat) powi (k - 53) = 2 powi (k - 54 + 1)" by simp
    also have "\<dots> = 2 powi (k - 54) * 2" by (subst power_int_add) simp_all
    finally show ?thesis by simp
  qed
  finally have "ulp x / 2 \<le> 2 powi (k - 54)" .
  with r(4) have "\<bar>r - x\<bar> \<le> 2 powi (k - 54)" by (rule order_trans)
  with r(1,2,3) show ?thesis by blast
qed

section \<open>The metrics panel\<close>

lemma length_getitem_eq: "length (getitem_mask df (series_eq (column f df) v)) = length (filter (\<lambda>r. f r = v) df)"
  by (simp add: series_eq_column getitem_mask_map)

lemma gender_ratio_eq:
  "gender_ratio df =
     py_truediv (int (length (filter (\<lambda>r. sex r = 1) df))) (int (length (filter (\<lambda>r. sex r = 0) df)))"
  unfolding gender_ratio_def Let_def length_getitem_eq by simp

lemma no_female_filter: "0 \<notin> set (column sex df) \<Longrightarrow> filter (\<lambda>r. sex r = 0) df = []"
  unfolding column_def by (induction df) auto

lemma gender_ratio_no_female: "0 \<notin> set (column sex df) \<Longrightarrow> gender_ratio df = Inl ZeroDivisionError"
  by (simp add: gender_ratio_eq no_female_filter py_truediv_def)

lemma metrics_eq:
  "metrics e s =
     (let s' = s\<lparr>st_rendered := st_rendered s @
                 [Columns 4,
                  Metric ''Total Patients'' [FInt (total_patients (st_df s))],
                  Metric ''Heart Disease Prevalence'' (prevalence_text e (st_df s)),
                  Metric ''Average Age'' (average_age_text e (st_df s))]\<rparr>
      in case gender_ratio (st_df s) of
           Inl err \<Rightarrow> (s', Some err)
         | Inr r \<Rightarrow> (s'\<lparr>st_rendered := st_rendered s' @ [Metric ''Male to Female Ratio'' [FFloat 2 r]]\<rparr>, None))"
  unfolding metrics_def
  by (simp add: seq_def render_def raise_def Let_def split: sum.splits)

lemma metrics_shows_prevalence:
  "Metric ''Heart Disease Prevalence'' (prevalence_text e (st_df s)) \<in> set (st_rendered (fst (metrics e s)))"
  by (simp add: metrics_eq Let_def split: sum.splits)

text \<open>
  Claim C2, as stated, fails: on a table without a row of sex 0 the ratio is a division by
  zero; it raises \<^verbatim>\<open>ZeroDivisionError\<close>, nothing catches it, and the run ends with it.
\<close>

theorem gender_ratio_no_female_counterexample:
  "0 \<notin> set (column sex men_only) \<and>
   gender_ratio men_only = Inl ZeroDivisionError \<and>
   raised (run_script (loaded_env men_only) None) = Some ZeroDivisionError"
proof -
  have a: "0 \<notin> set (column sex men_only)"
    by (simp add: men_only_def patient_def column_def)
  then have b: "gender_ratio men_only = Inl ZeroDivisionError"
    by (rule gender_ratio_no_female)
  have "raised (run_script (loaded_env men_only) None) = Some ZeroDivisionError"
    by (simp add: b run_script_def load_data_def cache_data_def load_data_body_def read_csv_def
          loaded_env_def example_env_def body_def sidebar_def seq_def render_def metrics_eq)
  with a b show ?thesis by simp
qed

text \<open>
  Claim C2, amended. For every table containing zero rows with sex 0, computing the
  gender ratio raises \<^verbatim>\<open>ZeroDivisionError\<close>, uncaught: the metrics panel ends the run
  with that error after its first three metrics, and shows no ratio and no sentinel.
\<close>

theorem gender_ratio_no_female_raises:
  assumes "0 \<notin> set (column sex (st_df s))"
  shows "gender_ratio (st_df s) = Inl ZeroDivisionError \<and>
         metrics e s =
           (s\<lparr>st_rendered := st_rendered s @
                 [Columns 4,
                  Metric ''Total Patients'' [FInt (total_patients (st_df s))],
                  Metric ''Heart Disease Prevalence'' (prevalence_text e (st_df s)),
                  Metric ''Average Age'' (average_age_text e (st_df s))]\<rparr>,
            Some ZeroDivisionError)"
proof -
  have "gender_ratio (st_df s) = Inl ZeroDivisionError"
    using assms by (rule gender_ratio_no_female)
  then show ?thesis by (simp add: metrics_eq)
qed

theorem gender_ratio_no_female_raises_witness:
  "0 \<notin> set (column sex (st_df (initial_state men_only))) \<and>
   gender_ratio men_only = Inl ZeroDivisionError \<and>
   snd (metrics example_env (initial_state men_only)) = Some ZeroDivisionError"
  using gender_ratio_no_female_raises [of "initial_state men_only" example_env]
  by (simp add: initial_state_def men_only_def patient_def column_def)

lemma abs_scale_100: "\<bar>a - b * 100\<bar> \<le> 1 / 2 \<Longrightarrow> \<bar>a / 100 - b\<bar> \<le> 1 / 200" for a b :: rat
  by linarith

lemma abs_tri_100: "\<bar>p - q * 100\<bar> \<le> \<bar>p - m * 100\<bar> + \<bar>m - q\<bar> * 100" for p q m :: rat
proof -
  have "\<bar>m * 100 - q * 100\<bar> = \<bar>(m - q) * 100\<bar>" by (simp only: left_diff_distrib)
  also have "\<dots> = \<bar>m - q\<bar> * \<bar>100\<bar>" by (rule abs_mult)
  finally have scale: "\<bar>m * 100 - q * 100\<bar> = \<bar>m - q\<bar> * 100" by simp
  have "p - q * 100 = (p - m * 100) + (m * 100 - q * 100)" by simp
  then have "\<bar>p - q * 100\<bar> = \<bar>(p - m * 100) + (m * 100 - q * 100)\<bar>" by (rule arg_cong)
  also have "\<dots> \<le> \<bar>p - m * 100\<bar> + \<bar>m * 100 - q * 100\<bar>" by (rule abs_triangle_ineq)
  finally show ?thesis by (simp only: scale)
qed

lemma binary_sum_bounds: "set s \<subseteq> {0, 1} \<Longrightarrow> 0 \<le> sum_list s \<and> sum_list s \<le> int (length s)"
  by (induction s) auto

lemma binary_abs: "set s \<subseteq> {0, 1} \<Longrightarrow> map abs s = (s :: int list)"
  by (induction s) auto

text \<open>On a non-empty series of zeros and ones, no longer than \<open>2 ^ 53\<close>, the mean is the
  rounded quotient of the exact sum by the length.\<close>

lemma series_mean_binary:
  assumes "s \<noteq> []" and "set s \<subseteq> {0, 1}" and "length s \<le> 2 ^ 53"
  shows "series_mean e s = round_double (of_int (sum_list s) / of_nat (length s))"
proof -
  from binary_sum_bounds [OF assms(2)] have "sum_list s \<le> int (length s)" by simp
  also have "int (length s) \<le> int (2 ^ 53)" using assms(3) by (simp only: of_nat_le_iff)
  finally have "sum_list (map abs s) \<le> 2 ^ 53" by (simp add: binary_abs [OF assms(2)])
  then have sum: "float_sum e s = sum_list s" by (simp add: float_sum_def)
  have cnt: "round_double (of_nat (length s)) = Fin (of_nat (length s))"
    using assms(3) by (rule round_double_of_nat)
  show ?thesis using assms(1) by (simp add: series_mean_def sum cnt float_div_def)
qed

lemma format_f_percent:
  assumes "0 \<le> p" and "p \<le> 100"
  shows "nat (round_half_even (p * 100)) \<le> 10000"
    and "\<bar>of_nat (nat (round_half_even (p * 100))) / 100 - p\<bar> \<le> 1 / 200"
    and "format_f 2 (Fin p) =
           nat_digits (nat (round_half_even (p * 100)) div 100) @ ''.''
           @ fixed_digits 2 (nat (round_half_even (p * 100)) mod 100)"
proof -
  let ?k = "round_half_even (p * 100)"
  have "p * 100 \<le> of_int 10000" using assms(2) by simp
  then have hi: "?k \<le> 10000" by (rule round_half_even_le)
  have "of_int 0 \<le> p * 100" using assms(1) by simp
  then have lo: "0 \<le> ?k" by (rule round_half_even_ge)
  from hi lo show "nat ?k \<le> 10000" by simp
  have "\<bar>of_int ?k - p * 100\<bar> \<le> 1 / 2" by (rule round_half_even_error)
  then have "\<bar>of_int ?k / 100 - p\<bar> \<le> 1 / 200" by (rule abs_scale_100)
  with lo show "\<bar>of_nat (nat ?k) / 100 - p\<bar> \<le> 1 / 200" by simp
  show "format_f 2 (Fin p) = nat_digits (nat ?k div 100) @ ''.'' @ fixed_digits 2 (nat ?k mod 100)"
    using assms(1) by (simp add: format_f_def Let_def)
qed

text \<open>
  Claim C4. The text of the prevalence metric is the float64 mean of the target column
  times 100, printed with 2 decimals, and a percent sign. For every non-empty table whose
  target column holds only 0 and 1 (and of at most \<open>2 ^ 53\<close> rows, so that the float sum
  of the column is exact) the mean is the rounded quotient of the sum by the row count,
  the prevalence is that mean times 100, rounded, it lies between 0 and 100 and within
  \<open>1 / 2 ^ 45\<close> of the exact \<open>sum / count * 100\<close>, and the text is the digits of that value
  rounded to hundredths, between 0.00 and 100.00, with the percent sign.
\<close>

theorem prevalence_metric_range:
  "fstring (prevalence_text e df)
     = format_f 2 (float_mul (series_mean e (column target df)) (Fin 100)) @ ''%'' \<and>
   Metric ''Heart Disease Prevalence'' (prevalence_text e (st_df s))
     \<in> set (st_rendered (fst (metrics e s))) \<and>
   (df \<noteq> [] \<and> set (column target df) \<subseteq> {0, 1} \<and> length df \<le> 2 ^ 53 \<longrightarrow>
      (\<exists>m p k.
         series_mean e (column target df) = Fin m \<and>
         round_double (of_int (sum_list (column target df)) / of_nat (length df)) = Fin m \<and>
         prevalence e df = Fin p \<and>
         round_double (m * 100) = Fin p \<and>
         0 \<le> p \<and> p \<le> 100 \<and>
         \<bar>p - of_int (sum_list (column target df)) / of_nat (length df) * 100\<bar> \<le> 1 / 2 ^ 45 \<and>
         k = nat (round_half_even (p * 100)) \<and> k \<le> 10000 \<and>
         \<bar>of_nat k / 100 - p\<bar> \<le> 1 / 200 \<and>
         fstring (prevalence_text e df)
           = nat_digits (k div 100) @ ''.'' @ fixed_digits 2 (k mod 100) @ ''%''))"
proof (intro conjI impI)
  show "fstring (prevalence_text e df)
     = format_f 2 (float_mul (series_mean e (column target df)) (Fin 100)) @ ''%''"
    by (simp add: fstring_def prevalence_text_def prevalence_def)
  show "Metric ''Heart Disease Prevalence'' (prevalence_text e (st_df s))
     \<in> set (st_rendered (fst (metrics e s)))"
    by (rule metrics_shows_prevalence)
next
  assume a: "df \<noteq> [] \<and> set (column target df) \<subseteq> {0, 1} \<and> length df \<le> 2 ^ 53"
  let ?s = "column target df"
  let ?q = "(of_int (sum_list ?s) :: rat) / of_nat (length df)"
  have len: "length ?s = length df" by (simp add: column_def)
  from a have ne: "?s \<noteq> []" by (simp add: column_def)
  have n: "(0::rat) < of_nat (length df)" using a by simp
  from a have "0 \<le> sum_list ?s \<and> sum_list ?s \<le> int (length ?s)"
    using binary_sum_bounds by blast
  with len have S: "0 \<le> sum_list ?s" "sum_list ?s \<le> int (length df)" by simp_all
  have q0: "0 \<le> ?q" using S(1) by simp
  have "(of_int (sum_list ?s) :: rat) \<le> of_int (int (length df))"
    using S(2) by (simp only: of_int_le_iff)
  then have "(of_int (sum_list ?s) :: rat) \<le> of_nat (length df)" by simp
  then have q1: "?q \<le> of_int 1" using n by (simp add: divide_le_eq)
  have q2: "?q < 2 powi 1" using q1 by simp
  from round_double_range [OF q0 q1 _ q2] obtain m where
    m: "round_double ?q = Fin m" "0 \<le> m" "m \<le> 1" "\<bar>m - ?q\<bar> \<le> 2 powi (- 53)"
    by auto
  have mean: "series_mean e ?s = Fin m"
    using series_mean_binary [OF ne, of e] a len m(1) by simp
  have m0: "0 \<le> m * 100" using m(2) by simp
  have m1: "m * 100 \<le> of_int 100" using m(3) by simp
  have m2: "m * 100 < 2 powi 7" using m1 by simp
  from round_double_range [OF m0 m1 _ m2] obtain p where
    p: "round_double (m * 100) = Fin p" "0 \<le> p" "p \<le> 100" "\<bar>p - m * 100\<bar> \<le> 2 powi (- 47)"
    by auto
  have prev: "prevalence e df = Fin p"
    by (simp add: prevalence_def mean float_mul_def p(1))
  have "\<bar>p - ?q * 100\<bar> \<le> \<bar>p - m * 100\<bar> + \<bar>m - ?q\<bar> * 100"
    by (rule abs_tri_100)
  also have "\<dots> \<le> 2 powi (- 47) + 2 powi (- 53) * 100"
    using p(4) m(4) by (intro add_mono mult_right_mono) simp_all
  also have "\<dots> \<le> 1 / 2 ^ 45"
    by (simp add: power_int_minus_divide)
  finally have close: "\<bar>p - ?q * 100\<bar> \<le> 1 / 2 ^ 45" .
  let ?k = "nat (round_half_even (p * 100))"
  note f = format_f_percent [OF p(2,3)]
  have shown: "fstring (prevalence_text e df)
           = nat_digits (?k div 100) @ ''.'' @ fixed_digits 2 (?k mod 100) @ ''%''"
    by (simp add: fstring_def prevalence_text_def prev f(3))
  from mean m(1) prev p(1,2,3) close f(1,2) shown
  show "\<exists>m p k.
         series_mean e (column target df) = Fin m \<and>
         round_double (of_int (sum_list (column target df)) / of_nat (length df)) = Fin m \<and>
         prevalence e df = Fin p \<and>
         round_double (m * 100) = Fin p \<and>
         0 \<le> p \<and> p \<le> 100 \<and>
         \<bar>p - of_int (sum_list (column target df)) / of_nat (length df) * 100\<bar> \<le> 1 / 2 ^ 45 \<and>
         k = nat (round_half_even (p * 100)) \<and> k \<le> 10000 \<and>
         \<bar>of_nat k / 100 - p\<bar> \<le> 1 / 200 \<and>
         fstring (prevalence_text e df)
           = nat_digits (k div 100) @ ''.'' @ fixed_digits 2 (k mod 100) @ ''%''"
    by blast
qed


theorem prevalence_metric_range_witness:
  "three_patients \<noteq> [] \<and> set (column target three_patients) \<subseteq> {0, 1} \<and>
   length three_patients \<le> 2 ^ 53 \<and>
   prevalence example_env three_patients = Fin (2345624805922133 / 35184372088832) \<and>
   (0::rat) \<le> 2345624805922133 / 35184372088832 \<and>
   (2345624805922133 / 35184372088832 :: rat) \<le> 100 \<and>
   fstring (prevalence_text example_env three_patients) = ''66.67%''"
proof -
  have h: "three_patients \<noteq> [] \<and> set (column target three_patients) \<subseteq> {0, 1} \<and>
           length three_patients \<le> 2 ^ 53"
    by (simp add: three_patients_def patient_def column_def)
  have v: "prevalence example_env three_patients = Fin (2345624805922133 / 35184372088832)"
    by code_simp
  have t: "fstring (prevalence_text example_env three_patients) = ''66.67%''"
    by code_simp
  from prevalence_metric_range [of example_env three_patients "initial_state three_patients"] h
  obtain p where "prevalence example_env three_patients = Fin p" "0 \<le> p" "p \<le> 100"
    by blast
  with v have "(0::rat) \<le> 2345624805922133 / 35184372088832"
    "(2345624805922133 / 35184372088832 :: rat) \<le> 100" by simp_all
  with h v t show ?thesis by blast
qed

section \<open>The grouped summary\<close>

lemma groupby_target_binary:
  assumes "set (column target df) = {0, 1}"
  shows "groupby_target df =
           [(0, filter (\<lambda>r. target r = 0) df), (1, filter (\<lambda>r. target r = 1) df)]"
proof -
  have "sort (remdups (column target df)) = sorted_list_of_set (set (column target df))"
    by (simp add: sorted_list_of_set_sort_remdups)
  also have "\<dots> = [0, 1]" using assms by simp
  finally show ?thesis by (simp add: groupby_target_def)
qed

lemma summary_columns:
  "map rename_column (concat (map (\<lambda>(c, f, fns). map (\<lambda>fn. (c, fn)) fns) agg_spec)) =
     [''Age Mean'', ''Age Std'', ''Age Min'', ''Age Max'', ''Thalach Mean'', ''Thalach Std'',
      ''Chol Mean'', ''Chol Std'', ''Trestbps Mean'', ''Trestbps Std'']"
proof -
  have "concat (map (\<lambda>(c, f, fns). map (\<lambda>fn. (c, fn)) fns) agg_spec) =
          [(''age'', ''mean''), (''age'', ''std''), (''age'', ''min''), (''age'', ''max''),
           (''thalach'', ''mean''), (''thalach'', ''std''), (''chol'', ''mean''), (''chol'', ''std''),
           (''trestbps'', ''mean''), (''trestbps'', ''std'')]"
    by (simp add: agg_spec_def)
  moreover have "map rename_column
          [(''age'', ''mean''), (''age'', ''std''), (''age'', ''min''), (''age'', ''max''),
           (''thalach'', ''mean''), (''thalach'', ''std''), (''chol'', ''mean''), (''chol'', ''std''),
           (''trestbps'', ''mean''), (''trestbps'', ''std'')] =
     [''Age Mean'', ''Age Std'', ''Age Min'', ''Age Max'', ''Thalach Mean'', ''Thalach Std'',
      ''Chol Mean'', ''Chol Std'', ''Trestbps Mean'', ''Trestbps Std'']"
    by code_simp
  ultimately show ?thesis by simp
qed

lemma series_min_Min:
  assumes "s \<noteq> []"
  shows "series_min s = Some (Min (set s))"
proof -
  from assms obtain a list where s: "s = a # list" by (cases s) auto
  have "Min (set (a # list)) = fold min list a" by (rule Min.set_eq_fold)
  then show ?thesis unfolding s by (simp only: series_min.simps)
qed

lemma series_max_Max:
  assumes "s \<noteq> []"
  shows "series_max s = Some (Max (set s))"
proof -
  from assms obtain a list where s: "s = a # list" by (cases s) auto
  have "Max (set (a # list)) = fold max list a" by (rule Max.set_eq_fold)
  then show ?thesis unfolding s by (simp only: series_max.simps)
qed

lemma agg_row_explicit:
  assumes "g \<noteq> []"
  shows "agg_row e g =
     [FloatCell (round2 e (series_mean e (column age g))),
      FloatCell (round2 e (std e (column age g))),
      IntCell (Min (set (column age g))),
      IntCell (Max (set (column age g))),
      FloatCell (round2 e (series_mean e (column thalach g))),
      FloatCell (round2 e (std e (column thalach g))),
      FloatCell (round2 e (series_mean e (column chol g))),
      FloatCell (round2 e (std e (column chol g))),
      FloatCell (round2 e (series_mean e (column trestbps g))),
      FloatCell (round2 e (std e (column trestbps g)))]"
proof -
  from assms have "column age g \<noteq> []" by (simp add: column_def)
  then show ?thesis
    by (simp add: agg_row_def agg_spec_def agg_cell_def series_min_Min series_max_Max)
qed

lemma groupby_length: "length (groupby_target df) = card (set (column target df))"
  by (simp add: groupby_target_def length_remdups_card_conv)

lemma summary_eq:
  "summary e df =
     (if length (groupby_target df) = 2
      then Inr \<lparr> fr_columns = map rename_column (fr_columns (grouped_agg e df)),
                 fr_index = [''No Heart Disease'', ''Heart Disease''],
                 fr_data = fr_data (grouped_agg e df) \<rparr>
      else Inl ValueError)"
  by (auto simp: summary_def set_columns_def set_index_def Let_def grouped_agg_def)

text \<open>
  Claim C6. For every table whose target column takes exactly the values 0 and 1, the
  grouping has exactly the two groups of the rows with target 0 and with target 1, both
  non-empty, whose row counts add up to the row count of the table; and the summary has
  exactly two rows, the first labelled No Heart Disease and holding the aggregates of
  the first group, the second labelled Heart Disease and holding those of the second:
  rounded mean, rounded standard deviation, minimum and maximum of age, and rounded mean
  and standard deviation of thalach, chol and trestbps, each over the rows of its group.
\<close>

theorem grouped_summary_counts:
  assumes "set (column target df) = {0, 1}"
  shows "\<exists>g0 g1.
           g0 = filter (\<lambda>r. target r = 0) df \<and> g1 = filter (\<lambda>r. target r = 1) df \<and>
           g0 \<noteq> [] \<and> g1 \<noteq> [] \<and>
           groupby_target df = [(0, g0), (1, g1)] \<and>
           length g0 + length g1 = length df \<and>
           summary e df =
             Inr \<lparr> fr_columns =
                     [''Age Mean'', ''Age Std'', ''Age Min'', ''Age Max'', ''Thalach Mean'',
                      ''Thalach Std'', ''Chol Mean'', ''Chol Std'', ''Trestbps Mean'',
                      ''Trestbps Std''],
                   fr_index = [''No Heart Disease'', ''Heart Disease''],
                   fr_data =
                     map (\<lambda>g.
                       [FloatCell (round2 e (series_mean e (column age g))),
                        FloatCell (round2 e (std e (column age g))),
                        IntCell (Min (set (column age g))),
                        IntCell (Max (set (column age g))),
                        FloatCell (round2 e (series_mean e (column thalach g))),
                        FloatCell (round2 e (std e (column thalach g))),
                        FloatCell (round2 e (series_mean e (column chol g))),
                        FloatCell (round2 e (std e (column chol g))),
                        FloatCell (round2 e (series_mean e (column trestbps g))),
                        FloatCell (round2 e (std e (column trestbps g)))]) [g0, g1] \<rparr>"
proof -
  let ?g0 = "filter (\<lambda>r. target r = 0) df"
  let ?g1 = "filter (\<lambda>r. target r = 1) df"
  have groups: "groupby_target df = [(0, ?g0), (1, ?g1)]"
    using assms by (rule groupby_target_binary)
  from assms have "0 \<in> target ` set df" "1 \<in> target ` set df"
    by (auto simp: column_def)
  then have ne: "?g0 \<noteq> []" "?g1 \<noteq> []"
    by (auto simp: filter_empty_conv)
  from assms have bin: "\<And>r. r \<in> set df \<Longrightarrow> target r = 0 \<or> target r = 1"
    by (auto simp: column_def)
  have "?g1 = filter (\<lambda>r. \<not> target r = 0) df"
    by (rule filter_cong) (use bin in auto)
  then have len: "length ?g0 + length ?g1 = length df"
    by (simp add: sum_length_filter_compl)
  have cols: "map rename_column (fr_columns (grouped_agg e df)) =
     [''Age Mean'', ''Age Std'', ''Age Min'', ''Age Max'', ''Thalach Mean'', ''Thalach Std'',
      ''Chol Mean'', ''Chol Std'', ''Trestbps Mean'', ''Trestbps Std'']"
    by (simp only: grouped_agg_def frame.simps summary_columns)
  have data: "fr_data (grouped_agg e df) = [agg_row e ?g0, agg_row e ?g1]"
    by (simp add: grouped_agg_def groups)
  have "summary e df =
          Inr \<lparr> fr_columns = map rename_column (fr_columns (grouped_agg e df)),
                 fr_index = [''No Heart Disease'', ''Heart Disease''],
                 fr_data = fr_data (grouped_agg e df) \<rparr>"
    by (simp add: summary_eq groups)
  then have "summary e df =
          Inr \<lparr> fr_columns =
                     [''Age Mean'', ''Age Std'', ''Age Min'', ''Age Max'', ''Thalach Mean'',
                      ''Thalach Std'', ''Chol Mean'', ''Chol Std'', ''Trestbps Mean'',
                      ''Trestbps Std''],
                 fr_index = [''No Heart Disease'', ''Heart Disease''],
                 fr_data = [agg_row e ?g0, agg_row e ?g1] \<rparr>"
    by (simp only: cols data)
  then have "summary e df =
             Inr \<lparr> fr_columns =
                     [''Age Mean'', ''Age Std'', ''Age Min'', ''Age Max'', ''Thalach Mean'',
                      ''Thalach Std'', ''Chol Mean'', ''Chol Std'', ''Trestbps Mean'',
                      ''Trestbps Std''],
                   fr_index = [''No Heart Disease'', ''Heart Disease''],
                   fr_data =
                     map (\<lambda>g.
                       [FloatCell (round2 e (series_mean e (column age g))),
                        FloatCell (round2 e (std e (column age g))),
                        IntCell (Min (set (column age g))),
                        IntCell (Max (set (column age g))),
                        FloatCell (round2 e (series_mean e (column thalach g))),
                        FloatCell (round2 e (std e (column thalach g))),
                        FloatCell (round2 e (series_mean e (column chol g))),
                        FloatCell (round2 e (std e (column chol g))),
                        FloatCell (round2 e (series_mean e (column trestbps g))),
                        FloatCell (round2 e (std e (column trestbps g)))]) [?g0, ?g1] \<rparr>"
    by (simp add: agg_row_explicit [OF ne(1)] agg_row_explicit [OF ne(2)])
  with groups ne len show ?thesis by blast
qed

theorem grouped_summary_counts_witness:
  "set (column target three_patients) = {0, 1} \<and>
   groupby_target three_patients = [(0, [patient 29 1 0]), (1, [patient 45 0 1, patient 71 1 1])] \<and>
   length [patient 29 1 0] + length [patient 45 0 1, patient 71 1 1] = length three_patients \<and>
   (\<exists>fr. summary example_env three_patients = Inr fr \<and> length (fr_data fr) = 2 \<and>
         fr_index fr = [''No Heart Disease'', ''Heart Disease''])"
proof -
  have h: "set (column target three_patients) = {0, 1}"
    by (auto simp: three_patients_def patient_def column_def)
  have g0: "filter (\<lambda>r. target r = 0) three_patients = [patient 29 1 0]"
    by (simp add: three_patients_def patient_def)
  have g1: "filter (\<lambda>r. target r = 1) three_patients = [patient 45 0 1, patient 71 1 1]"
    by (simp add: three_patients_def patient_def)
  from grouped_summary_counts [OF h, of example_env] obtain fr where
    "groupby_target three_patients =
       [(0, filter (\<lambda>r. target r = 0) three_patients), (1, filter (\<lambda>r. target r = 1) three_patients)]"
    "length (filter (\<lambda>r. target r = 0) three_patients) + length (filter (\<lambda>r. target r = 1) three_patients)
       = length three_patients"
    "summary example_env three_patients = Inr fr"
    "length (fr_data fr) = 2" "fr_index fr = [''No Heart Disease'', ''Heart Disease'']"
    by auto
  with h show ?thesis by (simp add: g0 g1)
qed

text \<open>
  Claim C9, as stated, fails in its first half: the summary also succeeds on a table
  whose target column takes two values other than 0 and 1. Here the values are 1 and 2,
  0 is absent, and the two labels are assigned.
\<close>

theorem summary_labels_counterexample:
  "0 \<notin> set (column target codes_one_two) \<and>
   card (set (column target codes_one_two)) = 2 \<and>
   (\<exists>fr. summary example_env codes_one_two = Inr fr \<and>
         fr_index fr = [''No Heart Disease'', ''Heart Disease''])"
  by (simp add: summary_eq groupby_length codes_one_two_def patient_def column_def)

lemma run_one_group: "raised (run_script (loaded_env one_group) None) = Some ValueError"
  by code_simp

text \<open>
  Claim C9, amended. The grouped summary succeeds exactly when the target column takes
  exactly two distinct values, and 0 and 1 need not be among them; for every table whose
  target column has fewer or more than two distinct values, assigning the two row labels
  fails with a length-mismatch \<^verbatim>\<open>ValueError\<close>.
\<close>

theorem summary_succeeds_iff_two_values:
  "(card (set (column target df)) = 2 \<longrightarrow>
      (\<exists>fr. summary e df = Inr fr \<and> fr_index fr = [''No Heart Disease'', ''Heart Disease''] \<and>
            length (fr_data fr) = 2)) \<and>
   (card (set (column target df)) \<noteq> 2 \<longrightarrow> summary e df = Inl ValueError)"
  by (simp add: summary_eq groupby_length grouped_agg_def)

theorem summary_succeeds_iff_two_values_witness:
  "card (set (column target three_patients)) = 2 \<and>
   (\<exists>fr. summary example_env three_patients = Inr fr \<and>
         fr_index fr = [''No Heart Disease'', ''Heart Disease''] \<and> length (fr_data fr) = 2) \<and>
   card (set (column target one_group)) \<noteq> 2 \<and>
   summary (loaded_env one_group) one_group = Inl ValueError \<and>
   raised (run_script (loaded_env one_group) None) = Some ValueError"
proof -
  have two: "card (set (column target three_patients)) = 2"
    by (simp add: three_patients_def patient_def column_def)
  have one: "card (set (column target one_group)) \<noteq> 2"
    by (simp add: one_group_def patient_def column_def)
  from summary_succeeds_iff_two_values [of three_patients example_env] two
  have ok: "\<exists>fr. summary example_env three_patients = Inr fr \<and>
         fr_index fr = [''No Heart Disease'', ''Heart Disease''] \<and> length (fr_data fr) = 2"
    by blast
  from summary_succeeds_iff_two_values [of one_group "loaded_env one_group"] one
  have bad: "summary (loaded_env one_group) one_group = Inl ValueError"
    by blast
  from two ok one bad run_one_group show ?thesis by blast
qed

section \<open>The data loader and the whole run\<close>

lemma load_data_None:
  "load_data None e =
     (case files e ''heart.csv'' of
        Missing \<Rightarrow> (Inl FileNotFoundError, None)
      | Unreadable err \<Rightarrow> (Inl err, None)
      | Readable text \<Rightarrow> (case parse_csv e text of Inl err \<Rightarrow> (Inl err, None) | Inr t \<Rightarrow> (Inr t, Some t)))"
  by (simp add: load_data_def cache_data_def load_data_body_def read_csv_def
      split: file_state.splits sum.splits)

lemma load_data_Some: "load_data (Some t) e = (Inr t, Some t)"
  by (simp add: load_data_def cache_data_def)

text \<open>
  Claim C3, as stated, fails. With \<^verbatim>\<open>heart.csv\<close> missing the run ends with
  \<^verbatim>\<open>FileNotFoundError\<close>, with an empty file it ends with the parser's error, a different
  kind; and the page configuration and the title, which precede the load, are rendered.
\<close>

theorem load_failure_counterexample:
  "files example_env ''heart.csv'' = Missing \<and>
   raised (run_script example_env None) = Some FileNotFoundError \<and>
   rendered (run_script example_env None) =
     [Set_page_config ''Heart Disease Analysis'' ''wide'',
      Title ''Heart Disease Analysis - A New Perspective''] \<and>
   files empty_file_env ''heart.csv'' = Readable [] \<and>
   raised (run_script empty_file_env None) = Some EmptyDataError"
  by (simp add: run_script_def load_data_None example_env_def empty_file_env_def page_head_def)

text \<open>
  Claim C3, amended. When no table is cached (the first load of a process): if the CSV
  file is missing the loader fails with \<^verbatim>\<open>FileNotFoundError\<close>, if it cannot be read
  with the error of the read, and if the parser rejects it with the parser's error, each
  passed on unchanged; a file the parser accepts loads and is cached. Such a failure is
  fatal: the run ends with that error, having rendered only the page configuration and
  the title that precede the load; no frame is bound, nothing is cached, and nothing
  recovers.
\<close>

theorem load_failure_fatal:
  "(files e ''heart.csv'' = Missing \<longrightarrow>
      fst (load_data None e) = Inl FileNotFoundError \<and>
      run_script e None =
        \<lparr> rendered = page_head, raised = Some FileNotFoundError, final_df = None, cache_after = None \<rparr>) \<and>
   (\<forall>err. files e ''heart.csv'' = Unreadable err \<longrightarrow>
      fst (load_data None e) = Inl err \<and>
      run_script e None =
        \<lparr> rendered = page_head, raised = Some err, final_df = None, cache_after = None \<rparr>) \<and>
   (\<forall>text err. files e ''heart.csv'' = Readable text \<and> parse_csv e text = Inl err \<longrightarrow>
      fst (load_data None e) = Inl err \<and>
      run_script e None =
        \<lparr> rendered = page_head, raised = Some err, final_df = None, cache_after = None \<rparr>) \<and>
   (\<forall>text t. files e ''heart.csv'' = Readable text \<and> parse_csv e text = Inr t \<longrightarrow>
      load_data None e = (Inr t, Some t))"
  by (simp add: run_script_def load_data_None)

theorem load_failure_fatal_witness:
  "files example_env ''heart.csv'' = Missing \<and>
   run_script example_env None =
     \<lparr> rendered = page_head, raised = Some FileNotFoundError, final_df = None, cache_after = None \<rparr> \<and>
   files locked_file_env ''heart.csv'' = Unreadable PermissionError \<and>
   run_script locked_file_env None =
     \<lparr> rendered = page_head, raised = Some PermissionError, final_df = None, cache_after = None \<rparr> \<and>
   files empty_file_env ''heart.csv'' = Readable [] \<and> parse_csv empty_file_env [] = Inl EmptyDataError \<and>
   run_script empty_file_env None =
     \<lparr> rendered = page_head, raised = Some EmptyDataError, final_df = None, cache_after = None \<rparr> \<and>
   files (loaded_env three_patients) ''heart.csv'' = Readable ''age,sex,cp,trestbps,chol,thalach,target'' \<and>
   parse_csv (loaded_env three_patients) ''age,sex,cp,trestbps,chol,thalach,target'' = Inr three_patients \<and>
   load_data None (loaded_env three_patients) = (Inr three_patients, Some three_patients)"
proof -
  have a: "files example_env ''heart.csv'' = Missing" by (simp add: example_env_def)
  have l: "files locked_file_env ''heart.csv'' = Unreadable PermissionError"
    by (simp add: locked_file_env_def example_env_def)
  have b: "files empty_file_env ''heart.csv'' = Readable [] \<and> parse_csv empty_file_env [] = Inl EmptyDataError"
    by (simp add: empty_file_env_def example_env_def)
  have g: "files (loaded_env three_patients) ''heart.csv'' = Readable ''age,sex,cp,trestbps,chol,thalach,target'' \<and>
   parse_csv (loaded_env three_patients) ''age,sex,cp,trestbps,chol,thalach,target'' = Inr three_patients"
    by (simp add: loaded_env_def example_env_def)
  from load_failure_fatal [of example_env] a
  have c: "run_script example_env None =
     \<lparr> rendered = page_head, raised = Some FileNotFoundError, final_df = None, cache_after = None \<rparr>"
    by blast
  from load_failure_fatal [of locked_file_env] l
  have m: "run_script locked_file_env None =
     \<lparr> rendered = page_head, raised = Some PermissionError, final_df = None, cache_after = None \<rparr>"
    by blast
  from load_failure_fatal [of empty_file_env] b
  have d: "run_script empty_file_env None =
     \<lparr> rendered = page_head, raised = Some EmptyDataError, final_df = None, cache_after = None \<rparr>"
    by blast
  from load_failure_fatal [of "loaded_env three_patients"] g
  have k: "load_data None (loaded_env three_patients) = (Inr three_patients, Some three_patients)"
    by blast
  from a l b g c m d k show ?thesis by blast
qed

lemma keeps_render: "st_df (fst (render el s)) = st_df s"
  by (simp add: render_def)

lemma keeps_raise: "st_df (fst (raise err s)) = st_df s"
  by (simp add: raise_def)

lemma keeps_seq:
  assumes "\<And>s. st_df (fst (f s)) = st_df s" and "\<And>s. st_df (fst (g s)) = st_df s"
  shows "st_df (fst (seq f g s)) = st_df s"
proof (cases "f s")
  case (Pair s' r)
  with assms(1) [of s] have s': "st_df s' = st_df s" by simp
  show ?thesis
  proof (cases r)
    case None
    with Pair have "seq f g s = g s'" by (simp add: seq_def)
    with assms(2) [of s'] s' show ?thesis by simp
  next
    case (Some err)
    with Pair have "seq f g s = (s', Some err)" by (simp add: seq_def)
    with s' show ?thesis by simp
  qed
qed

lemma keeps_seqs:
  assumes "\<And>f s. f \<in> set fs \<Longrightarrow> st_df (fst (f s)) = st_df s"
  shows "st_df (fst (seqs fs s)) = st_df s"
  using assms
proof (induction fs arbitrary: s)
  case Nil
  then show ?case by simp
next
  case (Cons f fs)
  have "st_df (fst (seq f (seqs fs) s)) = st_df s"
    by (rule keeps_seq) (simp_all add: Cons)
  then show ?case by simp
qed

lemma keeps_plotly_chart: "st_df (fst (plotly_chart e t d s)) = st_df s"
  by (simp add: plotly_chart_def keeps_render keeps_raise split: option.splits)

lemma keeps_sidebar: "st_df (fst (sidebar e s)) = st_df s"
  unfolding sidebar_def
  by (rule keeps_seqs) (auto simp: keeps_render simp del: seqs.simps intro!: keeps_seqs)

lemma keeps_metrics: "st_df (fst (metrics e s)) = st_df s"
  unfolding metrics_def
  by (rule keeps_seqs) (auto simp: keeps_render keeps_raise split: sum.splits)

lemma keeps_tab1: "st_df (fst (tab1 e s)) = st_df s"
  unfolding tab1_def
  by (rule keeps_seqs) (auto simp: keeps_render keeps_plotly_chart)

lemma keeps_tab2: "st_df (fst (tab2 e s)) = st_df s"
  unfolding tab2_def
  by (rule keeps_seqs) (auto simp: keeps_render keeps_plotly_chart)

lemma keeps_tab3_summary: "st_df (fst (tab3_summary e s)) = st_df s"
  unfolding tab3_summary_def
  by (rule keeps_seqs) (auto simp: keeps_render keeps_raise split: sum.splits option.splits)

lemma keeps_filter_tail:
  "st_df (fst (seqs [render el1, render el2,
                     (\<lambda>s. (s\<lparr>st_filtered_df := Some (h s)\<rparr>, None)),
                     (\<lambda>s. case st_filtered_df s of
                            None \<Rightarrow> (s, None)
                          | Some fd \<Rightarrow> seqs [render (w fd), render (Dataframe fd)] s)] s)) = st_df s"
  by (rule keeps_seqs) (auto simp: keeps_render simp del: seqs.simps split: option.splits intro!: keeps_seqs)

lemma keeps_tab3_filter: "st_df (fst (tab3_filter e s)) = st_df s"
  unfolding tab3_filter_def
  by (rule keeps_seqs) (auto simp: keeps_render keeps_raise keeps_filter_tail simp del: seqs.simps split: sum.splits)

lemma keeps_footer: "st_df (fst (footer s)) = st_df s"
  unfolding footer_def
  by (rule keeps_seqs) (auto simp: keeps_render)

lemma keeps_body: "st_df (fst (body e s)) = st_df s"
  unfolding body_def
  by (rule keeps_seqs)
     (auto simp: keeps_render keeps_sidebar keeps_metrics keeps_tab1 keeps_tab2
        keeps_tab3_summary keeps_tab3_filter keeps_footer)

lemma run_script_final_df:
  "final_df (run_script e cache) = (case fst (load_data cache e) of Inl err \<Rightarrow> None | Inr t \<Rightarrow> Some t)"
proof (cases "load_data cache e")
  case (Pair r c)
  show ?thesis
  proof (cases r)
    case (Inl err)
    with Pair show ?thesis by (simp add: run_script_def)
  next
    case (Inr t)
    obtain s' err where b: "body e \<lparr> st_df = t, st_summary = None, st_filtered_df = None, st_rendered = page_head \<rparr> = (s', err)"
      by (cases "body e \<lparr> st_df = t, st_summary = None, st_filtered_df = None, st_rendered = page_head \<rparr>")
    have "st_df (fst (body e \<lparr> st_df = t, st_summary = None, st_filtered_df = None, st_rendered = page_head \<rparr>)) = t"
      by (simp add: keeps_body)
    with b have "st_df s' = t" by simp
    with Pair Inr b show ?thesis by (simp add: run_script_def)
  qed
qed

text \<open>
  Claim C8. The table is immutable after the load: the sidebar, the metrics panel, each
  of the three tabs' sections (the summary and the filter of the third tab one by one),
  the footer and the whole body leave the frame bound to \<open>df\<close> as it was, whether they
  finish or raise; at the end of a run \<open>df\<close> is the table the loader returned.
\<close>

theorem table_unchanged:
  "st_df (fst (sidebar e s)) = st_df s \<and>
   st_df (fst (metrics e s)) = st_df s \<and>
   st_df (fst (tab1 e s)) = st_df s \<and>
   st_df (fst (tab2 e s)) = st_df s \<and>
   st_df (fst (tab3_summary e s)) = st_df s \<and>
   st_df (fst (tab3_filter e s)) = st_df s \<and>
   st_df (fst (footer s)) = st_df s \<and>
   st_df (fst (body e s)) = st_df s \<and>
   final_df (run_script e cache) = (case fst (load_data cache e) of Inl err \<Rightarrow> None | Inr t \<Rightarrow> Some t)"
  by (simp add: keeps_sidebar keeps_metrics keeps_tab1 keeps_tab2 keeps_tab3_summary
        keeps_tab3_filter keeps_footer keeps_body run_script_final_df)

theorem table_unchanged_witness:
  "st_df (fst (body (loaded_env three_patients) (initial_state three_patients))) = three_patients \<and>
   final_df (run_script (loaded_env three_patients) None) = Some three_patients"
proof -
  have "fst (load_data None (loaded_env three_patients)) = Inr three_patients"
    by (simp add: load_data_None loaded_env_def example_env_def)
  with table_unchanged [of "loaded_env three_patients" "initial_state three_patients" None]
  show ?thesis by (simp add: initial_state_def)
qed

end
